theory Spec2Isabelle
  imports Complex_Main "HOL-Library.Word"
begin

section \<open>Modelling conventions\<close>

text \<open>
  The repository holds two programs, each a class \<^verbatim>\<open>Terrain\<close>:
  \<^item> \<^verbatim>\<open>perline_noise.py\<close>: the plain (terrain) mode, a rotating noise surface;
  \<^item> \<^verbatim>\<open>test.py\<close>: the audio mode, a noise surface scaled by captured audio.

  Both are embedded below, function by function. Where the two classes use the same
  name, the plain mode keeps it and the audio mode carries the suffix \<open>_v\<close>.

  \<^bold>\<open>Scalars.\<close> Python floats and NumPy \<^verbatim>\<open>float32\<close>/\<^verbatim>\<open>float64\<close> entries are
  idealised as \<^typ>\<open>real\<close>: rounding is not modelled, and the cast
  \<^verbatim>\<open>dtype=np.float32\<close> is the identity. Every statement below is therefore about
  the exact value of the expression the code evaluates. Integer arrays keep their width:
  \<^verbatim>\<open>int8\<close>, \<^verbatim>\<open>int16\<close> and \<^verbatim>\<open>int32\<close> are words, and the cast
  \<^verbatim>\<open>dtype=np.uint32\<close> of the face indices is reduction modulo \<open>2 ^ 32\<close>.

  \<^bold>\<open>NumPy.\<close> The audio pipeline is read with the semantics of NumPy 1.x, for which it
  was written: \<^verbatim>\<open>np.array(t, dtype='b')\<close> wraps the values \<open>128..255\<close> to
  \<open>-128..-1\<close>, and adding the Python integer \<open>128\<close> to an \<^verbatim>\<open>int8\<close> array
  promotes the result to \<^verbatim>\<open>int16\<close> (value-based casting).

  \<^bold>\<open>Collaborators.\<close> The noise function \<^verbatim>\<open>OpenSimplex(seed).noise2\<close> is a
  parameter of type \<open>real \<Rightarrow> real \<Rightarrow> real\<close>. The capture stream is a record that
  answers its \<open>k\<close>-th read either with bytes or with the text of an \<^verbatim>\<open>OSError\<close>.
  The render sink is the field holding the last mesh data handed to
  \<^verbatim>\<open>GLMeshItem\<close> or \<^verbatim>\<open>setMeshData\<close>; \<^verbatim>\<open>print\<close> appends to a list of lines.
  Windows, timers and the camera are not modelled.
\<close>

section \<open>Data model\<close>

type_synonym vertex = "real list"
type_synonym face = "nat list"
type_synonym color = "real list"
type_synonym noise2 = "real \<Rightarrow> real \<Rightarrow> real"
type_synonym byte = "8 word"

text \<open>The keyword arguments of \<^verbatim>\<open>GLMeshItem\<close> and \<^verbatim>\<open>setMeshData\<close>.\<close>

record mesh_data =
  vertexes :: "vertex list"
  faces :: "face list"
  faceColors :: "color list"

text \<open>
  The exceptions the two programs can raise: \<^verbatim>\<open>struct.error\<close> from
  \<^verbatim>\<open>struct.unpack\<close>, \<^verbatim>\<open>ValueError\<close> from \<^verbatim>\<open>reshape\<close> and \<^verbatim>\<open>np.dot\<close>,
  and \<^verbatim>\<open>OSError\<close> (with its text) from the capture stream.
\<close>

datatype py_error = StructError | ValueError | OSError string

section \<open>Lattice\<close>

text \<open>
  \<^verbatim>\<open>range(start, stop, step)\<close> for a positive step, as \<^verbatim>\<open>perline_noise.py\<close>
  uses it (\<^verbatim>\<open>nsteps = 1\<close>).
\<close>

definition py_range :: "int \<Rightarrow> int \<Rightarrow> int \<Rightarrow> int list" where
  "py_range start stop step =
     map (\<lambda>i. start + int i * step) [0..<nat ((stop - start + step - 1) div step)]"

text \<open>
  \<^verbatim>\<open>np.arange(start, stop, step)\<close>: \<open>\<lceil>(stop - start) / step\<rceil>\<close> points
  \<open>start + i * step\<close>.
\<close>

definition np_arange :: "real \<Rightarrow> real \<Rightarrow> real \<Rightarrow> real list" where
  "np_arange start stop step =
     map (\<lambda>i. start + real i * step) [0..<nat \<lceil>(stop - start) / step\<rceil>]"

section \<open>The vertex comprehension\<close>

text \<open>
  \<^verbatim>\<open>[f(n, x, m, y) for n, x in enumerate(xs) for m, y in enumerate(ys)]\<close>:
  the outer loop runs over \<open>xs\<close>, so node \<open>(n, m)\<close> is entry \<open>n * len(ys) + m\<close>.
\<close>

definition grid_comprehension ::
  "(nat \<Rightarrow> 'a \<Rightarrow> nat \<Rightarrow> 'b \<Rightarrow> 'c) \<Rightarrow> 'a list \<Rightarrow> 'b list \<Rightarrow> 'c list" where
  "grid_comprehension f xs ys =
     concat (map (\<lambda>(n, x). map (\<lambda>(m, y). f n x m y) (enumerate 0 ys)) (enumerate 0 xs))"

section \<open>Faces and colors\<close>

text \<open>The two \<^verbatim>\<open>faces.append\<close> of one pass of the inner loop, with \<open>yoff = m * nfaces\<close>.\<close>

definition quad_faces :: "nat \<Rightarrow> nat \<Rightarrow> nat \<Rightarrow> face list" where
  "quad_faces nfaces m n =
     (let yoff = m * nfaces in
      [[n + yoff, yoff + n + nfaces, yoff + n + nfaces + 1],
       [n + yoff, yoff + n + 1, yoff + n + nfaces + 1]])"

text \<open>
  The two \<^verbatim>\<open>colors.append\<close> of one pass of the inner loop in \<^verbatim>\<open>Terrain.update\<close>
  (\<^verbatim>\<open>perline_noise.py\<close>) and \<^verbatim>\<open>Terrain.mesh\<close> (\<^verbatim>\<open>test.py\<close>).
\<close>

definition quad_colors :: "nat \<Rightarrow> nat \<Rightarrow> nat \<Rightarrow> color list" where
  "quad_colors nfaces m n =
     [[real n / real nfaces, 1 - real n / real nfaces, real m / real nfaces, 0.7],
      [real n / real nfaces, 1 - real n / real nfaces, real m / real nfaces, 0.8]]"

text \<open>The two \<^verbatim>\<open>colors.append\<close> in \<^verbatim>\<open>Terrain.__init__\<close> of \<^verbatim>\<open>perline_noise.py\<close>.\<close>

definition init_colors :: "nat \<Rightarrow> nat \<Rightarrow> color list" where
  "init_colors m n = [[0, 0, 0, 0], [0, 0, 0, 0]]"

text \<open>
  The nested loop
  \<^verbatim>\<open>for m in range(nfaces - 1): for n in range(nfaces - 1): ...\<close>
  appending to both lists; \<open>col\<close> is the pair of colors of one pass.
\<close>

definition topology_loop ::
  "nat \<Rightarrow> (nat \<Rightarrow> nat \<Rightarrow> color list) \<Rightarrow> face list \<times> color list" where
  "topology_loop nfaces col =
     fold (\<lambda>m acc.
        fold (\<lambda>n (faces, colors). (faces @ quad_faces nfaces m n, colors @ col m n))
          [0..<nfaces - 1] acc)
       [0..<nfaces - 1] ([], [])"

text \<open>\<^verbatim>\<open>np.array(faces, dtype=np.uint32)\<close>, entry by entry.\<close>

definition uint32 :: "nat \<Rightarrow> nat" where
  "uint32 i = i mod 2 ^ 32"

text \<open>
  Lines 137 to 148 of \<^verbatim>\<open>perline_noise.py\<close> and, with the same text, lines 71 to 89
  of \<^verbatim>\<open>test.py\<close>: the loop followed by the two array conversions.
\<close>

definition build_topology :: "nat \<Rightarrow> face list \<times> color list" where
  "build_topology nfaces =
     (let (faces, colors) = topology_loop nfaces (quad_colors nfaces)
      in (map (map uint32) faces, colors))"

section \<open>Rotation (\<^verbatim>\<open>perline_noise.py\<close>)\<close>

text \<open>\<^verbatim>\<open>np.dot\<close> of two matrices, each a list of rows.\<close>

definition dot :: "real list list \<Rightarrow> real list list \<Rightarrow> real list list" where
  "dot A B = map (\<lambda>row. map (\<lambda>col. sum_list (map2 (*) row col)) (transpose B)) A"

definition R_x :: "real \<Rightarrow> real list list" where
  "R_x theta_x = [[1, 0, 0],
                  [0, cos theta_x, - sin theta_x],
                  [0, sin theta_x, cos theta_x]]"

definition R_y :: "real \<Rightarrow> real list list" where
  "R_y theta_y = [[cos theta_y, 0, sin theta_y],
                  [0, 1, 0],
                  [- sin theta_y, 0, cos theta_y]]"

definition R_z :: "real \<Rightarrow> real list list" where
  "R_z theta_z = [[cos theta_z, - sin theta_z, 0],
                  [sin theta_z, cos theta_z, 0],
                  [0, 0, 1]]"

definition rotation_matrix_3d :: "real \<Rightarrow> real \<Rightarrow> real \<Rightarrow> real list list" where
  "rotation_matrix_3d theta_x theta_y theta_z =
     (let R_total = dot (dot (R_z theta_z) (R_y theta_y)) (R_x theta_x) in R_total)"

text \<open>
  The vertex arrays \<^verbatim>\<open>np.dot\<close> accepts against a \<open>3 \<times> 3\<close> matrix: \<open>K\<close> rows of
  three entries. An empty comprehension gives an array of shape \<open>(0,)\<close>, which
  \<^verbatim>\<open>np.dot\<close> rejects.
\<close>

definition is_Kx3 :: "vertex list \<Rightarrow> bool" where
  "is_Kx3 vertices \<longleftrightarrow> vertices \<noteq> [] \<and> list_all (\<lambda>v. length v = 3) vertices"

definition rotate_vertices ::
  "vertex list \<Rightarrow> real \<Rightarrow> real \<Rightarrow> real \<Rightarrow> py_error + vertex list" where
  "rotate_vertices vertices theta_x theta_y theta_z =
     (let rotation_matrix = rotation_matrix_3d theta_x theta_y theta_z in
      if is_Kx3 vertices then Inr (dot vertices (transpose rotation_matrix))
      else Inl ValueError)"

section \<open>Plain mode: \<^verbatim>\<open>Terrain\<close> of \<^verbatim>\<open>perline_noise.py\<close>\<close>

record terrain =
  nsteps :: int
  ypoints :: "int list"
  xpoints :: "int list"
  nfaces :: nat
  offset :: real
  theta_x :: real
  theta_y :: real
  theta_z :: real
  tmp :: noise2
  m1 :: mesh_data

text \<open>The array \<^verbatim>\<open>verts\<close> of \<^verbatim>\<open>Terrain.__init__\<close>.\<close>

definition init_verts :: "noise2 \<Rightarrow> int list \<Rightarrow> int list \<Rightarrow> vertex list" where
  "init_verts simplex xs ys =
     grid_comprehension
       (\<lambda>n x m y. [real_of_int x, real_of_int y, 1.5 * simplex (real n / 5) (real m / 5)])
       xs ys"

text \<open>
  \<^verbatim>\<open>Terrain.__init__\<close>; the argument is \<^verbatim>\<open>OpenSimplex(seed=42).noise2\<close>.
  The fields \<^verbatim>\<open>xrotate\<close>, \<^verbatim>\<open>yrotate\<close> and \<^verbatim>\<open>theta\<close> are never read and are left out.
\<close>

definition terrain_init :: "noise2 \<Rightarrow> py_error + terrain" where
  "terrain_init simplex =
     (let steps = 1;
          ys = py_range (- 20) 22 steps;
          xs = py_range (- 20) 22 steps;
          verts = init_verts simplex xs ys
      in case rotate_vertices verts 0 0 0 of
           Inl e \<Rightarrow> Inl e
         | Inr rotated_verts \<Rightarrow>
             (let (faces, colors) = topology_loop (length ys) init_colors
              in Inr \<lparr>nsteps = steps, ypoints = ys, xpoints = xs, nfaces = length ys,
                      offset = 0, theta_x = 0, theta_y = 0, theta_z = 0, tmp = simplex,
                      m1 = \<lparr>vertexes = rotated_verts, faces = faces,
                             faceColors = colors\<rparr>\<rparr>))"

text \<open>The array \<^verbatim>\<open>verts\<close> of \<^verbatim>\<open>Terrain.update\<close>, before the rotation.\<close>

definition update_verts :: "terrain \<Rightarrow> vertex list" where
  "update_verts t =
     grid_comprehension
       (\<lambda>n x m y. [real_of_int x, real_of_int y,
                    2.5 * tmp t (real n / 5 + offset t) (real m / 5 + offset t)])
       (xpoints t) (ypoints t)"

text \<open>\<^verbatim>\<open>Terrain.update\<close>: one animation tick of the plain mode.\<close>

definition update :: "terrain \<Rightarrow> py_error + terrain" where
  "update t =
     (let t1 = t\<lparr>theta_x := theta_x t - pi / 60\<rparr>;
          t2 = t1\<lparr>theta_y := theta_y t1 + pi / 40\<rparr>;
          t3 = t2\<lparr>theta_z := theta_z t2 - pi / 30\<rparr>;
          verts = update_verts t3
      in case rotate_vertices verts (theta_x t3) (theta_y t3) (theta_z t3) of
           Inl e \<Rightarrow> Inl e
         | Inr rotated_verts \<Rightarrow>
             (let (faces, colors) = build_topology (nfaces t3);
                  t4 = t3\<lparr>m1 := \<lparr>vertexes = rotated_verts, faces = faces,
                                   faceColors = colors\<rparr>\<rparr>
              in Inr (t4\<lparr>offset := offset t4 - 0.18\<rparr>)))"

section \<open>Audio mode: \<^verbatim>\<open>Terrain\<close> of \<^verbatim>\<open>test.py\<close>\<close>

subsection \<open>The capture stream\<close>

text \<open>
  \<open>reads k\<close> is what the device answers to the \<open>k\<close>-th call of \<^verbatim>\<open>read\<close>: the
  captured bytes, or \<open>Inl\<close> of the text of the \<^verbatim>\<open>OSError\<close> it raises.
  \<open>nread\<close> counts the calls made so far. The number of frames asked for is passed
  on to the device and does not otherwise enter the model.
\<close>

record audio_stream =
  is_active :: bool
  reads :: "nat \<Rightarrow> string + byte list"
  nread :: nat

definition stream_read :: "audio_stream \<Rightarrow> nat \<Rightarrow> (string + byte list) \<times> audio_stream" where
  "stream_read s frames = (reads s (nread s), s\<lparr>nread := Suc (nread s)\<rparr>)"

subsection \<open>The amplitude pipeline\<close>

text \<open>
  \<^verbatim>\<open>struct.unpack(str(count) + 'B', buffer)\<close>: \<open>count\<close> unsigned bytes, and
  \<^verbatim>\<open>struct.error\<close> when the buffer has another length.
\<close>

definition struct_unpack_B :: "nat \<Rightarrow> byte list \<Rightarrow> py_error + nat list" where
  "struct_unpack_B count buffer =
     (if length buffer = count then Inr (map unat buffer) else Inl StructError)"

text \<open>\<^verbatim>\<open>np.array(..., dtype='b')\<close>, entry by entry.\<close>

definition int8 :: "nat \<Rightarrow> 8 word" where
  "int8 v = of_nat v"

text \<open>The slice \<^verbatim>\<open>[::2]\<close>.\<close>

fun every_other :: "'a list \<Rightarrow> 'a list" where
  "every_other [] = []"
| "every_other [x] = [x]"
| "every_other (x # y # zs) = x # every_other zs"

text \<open>\<^verbatim>\<open>... + 128\<close> on an \<^verbatim>\<open>int8\<close> array: the result is \<^verbatim>\<open>int16\<close>.\<close>

definition add_128 :: "8 word \<Rightarrow> 16 word" where
  "add_128 v = scast v + 128"

text \<open>\<^verbatim>\<open>np.array(..., dtype='int32') - 128\<close>.\<close>

definition int32_sub_128 :: "16 word \<Rightarrow> 32 word" where
  "int32_sub_128 v = scast v - 128"

text \<open>\<^verbatim>\<open>... * 0.04\<close>.\<close>

definition scale_004 :: "32 word \<Rightarrow> real" where
  "scale_004 v = real_of_int (sint v) * 0.04"

text \<open>
  \<^verbatim>\<open>a.reshape((r, c))\<close> of a flat array, row-major; \<^verbatim>\<open>ValueError\<close> when the
  size is not \<open>r * c\<close>.
\<close>

definition reshape :: "'a list \<Rightarrow> nat \<Rightarrow> nat \<Rightarrow> py_error + 'a list list" where
  "reshape flat r c =
     (if length flat = r * c then Inr (map (\<lambda>i. take c (drop (i * c) flat)) [0..<r])
      else Inl ValueError)"

subsection \<open>The class\<close>

record visualizer =
  nstep :: real
  ypoints_v :: "real list"
  xpoints_v :: "real list"
  nfaces_v :: nat
  RATE :: nat
  CHUNK :: nat
  stream :: audio_stream
  noise :: noise2
  offset_v :: real
  mesh1 :: mesh_data
  stdout :: "string list"

text \<open>The branch \<^verbatim>\<open>wf_data is not None\<close> of \<^verbatim>\<open>Terrain.mesh\<close>, lines 62 to 66.\<close>

definition amplitude :: "visualizer \<Rightarrow> byte list \<Rightarrow> py_error + real list list" where
  "amplitude t wf_data =
     (case struct_unpack_B (2 * CHUNK t) wf_data of
        Inl e \<Rightarrow> Inl e
      | Inr unpacked \<Rightarrow>
          (let biased = map add_128 (every_other (map int8 unpacked));
               centred = map int32_sub_128 biased;
               scaled = map scale_004 centred
           in reshape scaled (length (xpoints_v t)) (length (ypoints_v t))))"

text \<open>The branch \<^verbatim>\<open>else\<close> of \<^verbatim>\<open>Terrain.mesh\<close>, lines 68 and 69.\<close>

definition default_amplitude :: "visualizer \<Rightarrow> py_error + real list list" where
  "default_amplitude t =
     reshape (replicate 1024 1) (length (xpoints_v t)) (length (ypoints_v t))"

text \<open>
  The array \<^verbatim>\<open>verts\<close> of \<^verbatim>\<open>Terrain.mesh\<close>. The indices \<open>n\<close> and \<open>m\<close> are
  within the reshaped grid, whose shape \<^verbatim>\<open>reshape\<close> has set to
  \<^verbatim>\<open>(len(xpoints), len(ypoints))\<close>.
\<close>

definition mesh_verts :: "visualizer \<Rightarrow> real list list \<Rightarrow> real \<Rightarrow> vertex list" where
  "mesh_verts t grid off =
     grid_comprehension
       (\<lambda>n x m y. [x, y, grid ! n ! m * noise t (real n / 5.5 + off) (real m / 5.2 + off)])
       (xpoints_v t) (ypoints_v t)"

text \<open>
  \<^verbatim>\<open>Terrain.mesh(self, offset=0, height=3.5, wf_data=None)\<close>. The body never reads
  \<^verbatim>\<open>height\<close>.
\<close>

definition mesh ::
  "visualizer \<Rightarrow> real \<Rightarrow> real \<Rightarrow> byte list option
     \<Rightarrow> py_error + vertex list \<times> face list \<times> color list" where
  "mesh t off height wf_data =
     (case (case wf_data of Some raw \<Rightarrow> amplitude t raw | None \<Rightarrow> default_amplitude t) of
        Inl e \<Rightarrow> Inl e
      | Inr grid \<Rightarrow>
          (let verts = mesh_verts t grid off;
               (faces, colors) = build_topology (nfaces_v t)
           in Inr (verts, faces, colors)))"

text \<open>
  \<^verbatim>\<open>Terrain.__init__\<close>; the arguments are the noise function and the opened stream.
  \<^verbatim>\<open>mesh\<close> runs before \<^verbatim>\<open>mesh1\<close> exists, here on an empty mesh.
\<close>

definition visualizer_init :: "noise2 \<Rightarrow> audio_stream \<Rightarrow> py_error + visualizer" where
  "visualizer_init simplex s =
     (let step = 1.3;
          ys = np_arange (- 20) (20 + step) step;
          xs = np_arange (- 20) (20 + step) step;
          t = \<lparr>nstep = step, ypoints_v = ys, xpoints_v = xs, nfaces_v = length ys,
               RATE = 44100, CHUNK = length xs * length ys, stream = s, noise = simplex,
               offset_v = 0, mesh1 = \<lparr>vertexes = [], faces = [], faceColors = []\<rparr>,
               stdout = []\<rparr>
      in case mesh t 0 3.5 None of
           Inl e \<Rightarrow> Inl e
         | Inr result \<Rightarrow>
             (let (verts, faces, colors) = result
              in Inr (t\<lparr>mesh1 := \<lparr>vertexes = verts, faces = faces,
                                     faceColors = colors\<rparr>\<rparr>)))"

text \<open>
  \<^verbatim>\<open>Terrain.update\<close>: one animation tick of the audio mode. The handler
  \<^verbatim>\<open>except OSError\<close> prints and returns; any other exception leaves the method.
\<close>

definition update_v :: "visualizer \<Rightarrow> py_error + visualizer" where
  "update_v t =
     (if is_active (stream t) then
        (case stream_read (stream t) (CHUNK t) of
           (Inl msg, s') \<Rightarrow>
             Inr (t\<lparr>stream := s', stdout := stdout t @ [''Error reading stream: '' @ msg]\<rparr>)
         | (Inr wf_data, s') \<Rightarrow>
             (case mesh (t\<lparr>stream := s'\<rparr>) (offset_v t) 3.5 (Some wf_data) of
                Inl (OSError msg) \<Rightarrow>
                  Inr (t\<lparr>stream := s',
                         stdout := stdout t @ [''Error reading stream: '' @ msg]\<rparr>)
              | Inl e \<Rightarrow> Inl e
              | Inr result \<Rightarrow>
                  (let (verts, faces, colors) = result
                   in Inr (t\<lparr>stream := s',
                             mesh1 := \<lparr>vertexes = verts, faces = faces,
                                        faceColors = colors\<rparr>\<rparr>))))
      else Inr t)"

section \<open>Definitions that follow the specification\<close>

text \<open>
  The specification's \<open>v' = R \<cdot> v\<close>: the matrix, a list of rows, applied to a
  column vector.
\<close>

definition apply_matrix :: "real list list \<Rightarrow> vertex \<Rightarrow> vertex" where
  "apply_matrix R v = map (\<lambda>row. sum_list (map2 (*) row v)) R"

text \<open>
  The standard right-handed rotations about one axis, as maps of a point:
  \<open>spec_Rx\<close> rotates \<open>(y, z)\<close>, \<open>spec_Ry\<close> rotates \<open>(z, x)\<close> and \<open>spec_Rz\<close>
  rotates \<open>(x, y)\<close>, each by the angle \<open>a\<close>.
\<close>

fun spec_Rx :: "real \<Rightarrow> vertex \<Rightarrow> vertex" where
  "spec_Rx a [x, y, z] = [x, y * cos a - z * sin a, y * sin a + z * cos a]"
| "spec_Rx a v = v"

fun spec_Ry :: "real \<Rightarrow> vertex \<Rightarrow> vertex" where
  "spec_Ry a [x, y, z] = [z * sin a + x * cos a, y, z * cos a - x * sin a]"
| "spec_Ry a v = v"

fun spec_Rz :: "real \<Rightarrow> vertex \<Rightarrow> vertex" where
  "spec_Rz a [x, y, z] = [x * cos a - y * sin a, x * sin a + y * cos a, z]"
| "spec_Rz a v = v"

text \<open>
  The specification's plain-mode height,
  \<open>heightScale * noise.sample(xs[n]/kx + timeOffset, ys[m]/ky + timeOffset)\<close>,
  on the world coordinates of node \<open>(n, m)\<close>.
\<close>

definition spec_height ::
  "noise2 \<Rightarrow> real \<Rightarrow> real \<Rightarrow> real \<Rightarrow> real list \<Rightarrow> real list \<Rightarrow> real \<Rightarrow> nat \<Rightarrow> nat \<Rightarrow> real" where
  "spec_height sample heightScale kx ky xs ys timeOffset n m =
     heightScale * sample (xs ! n / kx + timeOffset) (ys ! m / ky + timeOffset)"

text \<open>The same formula on the lattice indices \<open>n\<close> and \<open>m\<close> in place of the coordinates.\<close>

definition index_height ::
  "noise2 \<Rightarrow> real \<Rightarrow> real \<Rightarrow> real \<Rightarrow> real \<Rightarrow> nat \<Rightarrow> nat \<Rightarrow> real" where
  "index_height sample heightScale kx ky timeOffset n m =
     heightScale * sample (real n / kx + timeOffset) (real m / ky + timeOffset)"

text \<open>
  The specification's index of lattice node \<open>(n, m)\<close> in the vertex array,
  \<open>index(n, m) = m + n * M\<close>: \<open>n\<close> counts along \<^verbatim>\<open>xpoints\<close> and \<open>m\<close> along
  \<^verbatim>\<open>ypoints\<close>, \<open>M\<close> is the number of points along \<^verbatim>\<open>ypoints\<close>.
\<close>

definition node_index :: "nat \<Rightarrow> nat \<Rightarrow> nat \<Rightarrow> nat" where
  "node_index M n m = m + n * M"

text \<open>
  The specification's color law \<open>(n/N, 1 - n/N, m/N, alpha)\<close>, as a function of the two
  numbers it is applied to.
\<close>

definition spec_color :: "nat \<Rightarrow> nat \<Rightarrow> nat \<Rightarrow> real \<Rightarrow> color" where
  "spec_color N n m alpha = [real n / real N, 1 - real n / real N, real m / real N, alpha]"

text \<open>
  The simplified amplitude of node \<open>(n, m)\<close> on a grid with \<open>M\<close> columns: the byte at
  position \<open>2 * (n * M + m)\<close> read as a signed 8-bit sample, times \<open>0.04\<close>.
\<close>

definition simplified_amplitude :: "byte list \<Rightarrow> nat \<Rightarrow> nat \<Rightarrow> nat \<Rightarrow> real" where
  "simplified_amplitude raw M n m = real_of_int (sint (raw ! (2 * (n * M + m)))) * 0.04"

text \<open>
  The simplified pipeline: the one of \<^verbatim>\<open>Terrain.mesh\<close> without the pair
  \<^verbatim>\<open>+ 128\<close>, \<^verbatim>\<open>- 128\<close>.
\<close>

definition simplified_scale :: "8 word \<Rightarrow> real" where
  "simplified_scale b = real_of_int (sint b) * 0.04"

definition simplified_pipeline :: "visualizer \<Rightarrow> byte list \<Rightarrow> py_error + real list list" where
  "simplified_pipeline t wf_data =
     (case struct_unpack_B (2 * CHUNK t) wf_data of
        Inl e \<Rightarrow> Inl e
      | Inr unpacked \<Rightarrow>
          reshape (map simplified_scale (every_other (map int8 unpacked)))
            (length (xpoints_v t)) (length (ypoints_v t)))"

section \<open>Inputs for the concrete checks\<close>

text \<open>A smooth noise function with values in \<open>[-1/2, 1/2]\<close>.\<close>

definition demo_noise :: noise2 where
  "demo_noise x y = x / (1 + x * x)"

text \<open>
  Streams: one that is not active, one whose reads fail, one that delivers silence
  (\<open>2 * 1024\<close> zero bytes) and one that delivers too few bytes.
\<close>

definition idle_stream :: audio_stream where
  "idle_stream = \<lparr>is_active = False, reads = (\<lambda>k. Inr []), nread = 0\<rparr>"

definition broken_stream :: audio_stream where
  "broken_stream =
     \<lparr>is_active = True, reads = (\<lambda>k. Inl ''[Errno -9988] Stream closed''), nread = 0\<rparr>"

definition silent_stream :: audio_stream where
  "silent_stream = \<lparr>is_active = True, reads = (\<lambda>k. Inr (replicate 2048 0)), nread = 0\<rparr>"

definition short_stream :: audio_stream where
  "short_stream = \<lparr>is_active = True, reads = (\<lambda>k. Inr (replicate 100 0)), nread = 0\<rparr>"

text \<open>The two programs after their constructors have run.\<close>

definition started_plain :: "noise2 \<Rightarrow> terrain" where
  "started_plain simplex = projr (terrain_init simplex)"

definition started :: "noise2 \<Rightarrow> audio_stream \<Rightarrow> visualizer" where
  "started simplex s = projr (visualizer_init simplex s)"

section \<open>Lists built by loops and comprehensions\<close>

lemma inner_loop:
  "fold (\<lambda>n (faces, colors). (faces @ f n, colors @ c n)) ns (fs, cs) =
     (fs @ concat (map f ns), cs @ concat (map c ns))"
  by (induction ns arbitrary: fs cs) simp_all

lemma outer_loop:
  "fold (\<lambda>m acc. fold (\<lambda>n (faces, colors). (faces @ f m n, colors @ c m n)) ns acc) ms
        (fs, cs) =
     (fs @ concat (map (\<lambda>m. concat (map (f m) ns)) ms),
      cs @ concat (map (\<lambda>m. concat (map (c m) ns)) ms))"
  by (induction ms arbitrary: fs cs) (simp_all add: inner_loop)

lemma topology_loop_eq:
  "topology_loop N col =
     (concat (map (\<lambda>m. concat (map (quad_faces N m) [0..<N - 1])) [0..<N - 1]),
      concat (map (\<lambda>m. concat (map (col m) [0..<N - 1])) [0..<N - 1]))"
  by (simp add: topology_loop_def outer_loop)

lemma length_concat_const:
  "(\<And>x. x \<in> set xs \<Longrightarrow> length (f x) = k) \<Longrightarrow> length (concat (map f xs)) = k * length xs"
  by (induction xs) simp_all

lemma concat_map_const_nth:
  assumes "\<And>x. x \<in> set xs \<Longrightarrow> length (g x) = k" "n < length xs" "m < k"
  shows "concat (map g xs) ! (n * k + m) = g (xs ! n) ! m"
  using assms
proof (induction xs arbitrary: n)
  case Nil
  then show ?case by simp
next
  case (Cons a xs)
  show ?case
  proof (cases n)
    case 0
    then show ?thesis using Cons.prems by (simp add: nth_append)
  next
    case (Suc j)
    then show ?thesis using Cons.prems Cons.IH[of j] by (simp add: nth_append)
  qed
qed

lemma length_pairs:
  assumes "\<And>m n. length (c m n) = 2"
  shows "length (concat (map (\<lambda>m. concat (map (c m) [0..<k])) [0..<k])) = 2 * k * k"
proof -
  have row: "length (concat (map (c m) [0..<k])) = 2 * k" for m
    by (subst length_concat_const[where k = 2]) (simp_all add: assms)
  show ?thesis
    by (subst length_concat_const[where k = "2 * k"]) (simp_all add: row)
qed

lemma pairs_nth:
  assumes "\<And>m n. length (c m n) = 2" "m < k" "n < k" "j < 2"
  shows "concat (map (\<lambda>m. concat (map (c m) [0..<k])) [0..<k]) ! (m * (2 * k) + (n * 2 + j))
           = c m n ! j"
proof -
  have row: "length (concat (map (c m) [0..<k])) = 2 * k" for m
    by (subst length_concat_const[where k = 2]) (simp_all add: assms(1))
  have "n * 2 + j < 2 * k" using assms(3,4) by simp
  then have "concat (map (\<lambda>m. concat (map (c m) [0..<k])) [0..<k]) ! (m * (2 * k) + (n * 2 + j))
      = concat (map (c ([0..<k] ! m)) [0..<k]) ! (n * 2 + j)"
    using assms(2) by (intro concat_map_const_nth) (simp_all add: row)
  also have "\<dots> = concat (map (c m) [0..<k]) ! (n * 2 + j)"
    using assms(2) by simp
  also have "\<dots> = c m ([0..<k] ! n) ! j"
    using assms(3,4) by (intro concat_map_const_nth) (simp_all add: assms(1))
  also have "\<dots> = c m n ! j"
    using assms(3) by simp
  finally show ?thesis .
qed

lemma length_quad_faces: "length (quad_faces N m n) = 2"
  by (simp add: quad_faces_def Let_def)

lemma length_quad_colors: "length (quad_colors N m n) = 2"
  by (simp add: quad_colors_def)

lemma length_init_colors: "length (init_colors m n) = 2"
  by (simp add: init_colors_def)

lemma build_topology_faces:
  "fst (build_topology N) = map (map uint32) (fst (topology_loop N (quad_colors N)))"
  by (simp add: build_topology_def split: prod.splits)

lemma build_topology_colors:
  "snd (build_topology N) = snd (topology_loop N (quad_colors N))"
  by (simp add: build_topology_def split: prod.splits)

lemma length_loop_faces:
  "length (fst (topology_loop N col)) = 2 * (N - 1) * (N - 1)"
  by (simp add: topology_loop_eq length_pairs length_quad_faces)

lemma loop_faces_nth:
  assumes "m < N - 1" "n < N - 1" "j < 2"
  shows "fst (topology_loop N col) ! (m * (2 * (N - 1)) + (n * 2 + j))
           = quad_faces N m n ! j"
  using assms by (simp add: topology_loop_eq pairs_nth length_quad_faces)

lemma loop_colors_nth:
  assumes "\<And>m n. length (col m n) = 2" "m < N - 1" "n < N - 1" "j < 2"
  shows "snd (topology_loop N col) ! (m * (2 * (N - 1)) + (n * 2 + j))
           = col m n ! j"
  using assms by (simp add: topology_loop_eq pairs_nth)

lemma loop_face_index_bound:
  assumes "f \<in> set (fst (topology_loop N col))" "i \<in> set f"
  shows "i < N * N"
proof -
  from assms(1) obtain m n
    where mn: "m < N - 1" "n < N - 1" "f \<in> set (quad_faces N m n)"
    by (auto simp: topology_loop_eq)
  have "(m + 1) * N + n + 1 < N * N"
  proof -
    have "m + 2 \<le> N" using mn(1) by simp
    then have "(m + 2) * N \<le> N * N" by (rule mult_le_mono1)
    moreover have "n + 1 < N" using mn(2) by simp
    ultimately show ?thesis by (simp add: algebra_simps)
  qed
  moreover have "i \<le> (m + 1) * N + n + 1"
    using mn(3) assms(2) by (auto simp: quad_faces_def Let_def)
  ultimately show ?thesis by simp
qed

lemma uint32_le: "uint32 i \<le> i"
  by (simp add: uint32_def)

lemma length_grid: "length (grid_comprehension f xs ys) = length xs * length ys"
  unfolding grid_comprehension_def
  by (subst length_concat_const[where k = "length ys"]) (auto simp: enumerate_eq_zip)

lemma grid_nth:
  assumes "n < length xs" "m < length ys"
  shows "grid_comprehension f xs ys ! (n * length ys + m) = f n (xs ! n) m (ys ! m)"
proof -
  have "grid_comprehension f xs ys ! (n * length ys + m)
      = (\<lambda>(n, x). map (\<lambda>(m, y). f n x m y) (enumerate 0 ys)) (enumerate 0 xs ! n) ! m"
    unfolding grid_comprehension_def
    by (rule concat_map_const_nth) (use assms in \<open>auto simp: enumerate_eq_zip\<close>)
  also have "\<dots> = f n (xs ! n) m (ys ! m)"
    using assms by (simp add: nth_enumerate_eq)
  finally show ?thesis .
qed

lemma grid_all:
  assumes "\<And>n x m y. P (f n x m y)"
  shows "list_all P (grid_comprehension f xs ys)"
  using assms by (auto simp: grid_comprehension_def list_all_iff)

lemma length_plain_lattice: "length (py_range (- 20) 22 1) = 42"
  by (simp add: py_range_def)

lemma length_audio_lattice: "length (np_arange (- 20) (20 + 1.3) 1.3) = 32"
  by (simp add: np_arange_def)

section \<open>Claims\<close>

text \<open>
  \<^bold>\<open>C1.\<close> On a square lattice with \<open>N \<ge> 2\<close> points per axis the topology builder emits
  exactly \<open>2 * (N - 1) * (N - 1)\<close> faces, every vertex index of every face is below
  \<open>N * N\<close>, and \<open>N * N\<close> is the number of vertices of the comprehension over the
  lattice.
\<close>

theorem topology_face_count_and_index_bound:
  assumes "2 \<le> N" "length xs = N" "length ys = N"
  shows "length (fst (build_topology N)) = 2 * (N - 1) * (N - 1)
       \<and> (\<forall>face \<in> set (fst (build_topology N)). \<forall>i \<in> set face. i < N * N)
       \<and> length (grid_comprehension g xs ys) = N * N"
proof (intro conjI ballI)
  show "length (fst (build_topology N)) = 2 * (N - 1) * (N - 1)"
    by (simp add: build_topology_faces length_loop_faces)
next
  fix face i
  assume "face \<in> set (fst (build_topology N))" "i \<in> set face"
  then obtain f0 i0
    where "f0 \<in> set (fst (topology_loop N (quad_colors N)))" "i0 \<in> set f0" "i = uint32 i0"
    by (auto simp: build_topology_faces)
  then show "i < N * N"
    using loop_face_index_bound[of f0 N "quad_colors N" i0] uint32_le[of i0] by simp
next
  show "length (grid_comprehension g xs ys) = N * N"
    by (simp add: length_grid assms)
qed

theorem topology_face_count_and_index_bound_witness:
  "(2::nat) \<le> 42 \<and> length (py_range (- 20) 22 1) = 42
   \<and> length (fst (build_topology 42)) = 3362
   \<and> fst (build_topology 42) ! 0 = [0, 42, 43]
   \<and> fst (build_topology 42) ! 0 ! 2 < 42 * 42
   \<and> length (init_verts demo_noise (py_range (- 20) 22 1) (py_range (- 20) 22 1)) = 1764"
proof -
  let ?F = "fst (build_topology 42)"
  let ?xs = "py_range (- 20) 22 1"
  have inst: "length ?F = 2 * (42 - 1) * (42 - 1)
       \<and> (\<forall>face \<in> set ?F. \<forall>i \<in> set face. i < 42 * 42)
       \<and> length (grid_comprehension
            (\<lambda>n x m y. [real_of_int x, real_of_int y, 1.5 * demo_noise (real n / 5) (real m / 5)])
            ?xs ?xs) = 42 * 42"
    by (rule topology_face_count_and_index_bound) (simp_all add: length_plain_lattice)
  have first: "?F ! 0 = [0, 42, 43]"
    using loop_faces_nth[of 0 42 0 0 "quad_colors 42"] length_loop_faces[of 42 "quad_colors 42"]
    by (simp add: build_topology_faces quad_faces_def uint32_def)
  have "?F ! 0 \<in> set ?F"
    using inst by (intro nth_mem) simp
  moreover have "?F ! 0 ! 2 \<in> set (?F ! 0)"
    by (simp add: first)
  ultimately have "?F ! 0 ! 2 < 42 * 42"
    using inst by blast
  then show ?thesis
    using inst first by (simp add: length_plain_lattice init_verts_def)
qed

subsection \<open>Rotation\<close>

lemma length_three: "length v = 3 \<Longrightarrow> \<exists>x y z. v = [x, y, z]"
  by (cases v; cases "tl v"; cases "tl (tl v)") auto

lemma rotation_matrix_3d_unfold:
  "rotation_matrix_3d a b c = dot (dot (R_z c) (R_y b)) (R_x a)"
  by (simp add: rotation_matrix_3d_def)

lemma apply_rotation_matrix:
  "apply_matrix (rotation_matrix_3d a b c) [x, y, z] = spec_Rz c (spec_Ry b (spec_Rx a [x, y, z]))"
  by (simp add: rotation_matrix_3d_def dot_def R_x_def R_y_def R_z_def apply_matrix_def
      algebra_simps)

lemma dot_transpose_row:
  assumes "length v = 3"
  shows "map (\<lambda>col. sum_list (map2 (*) v col)) (transpose (transpose (rotation_matrix_3d a b c)))
           = apply_matrix (rotation_matrix_3d a b c) v"
proof -
  obtain x y z where "v = [x, y, z]" using length_three[OF assms] by blast
  then show ?thesis
    by (simp add: rotation_matrix_3d_def dot_def R_x_def R_y_def R_z_def apply_matrix_def)
qed

lemma dot_transpose:
  assumes "\<forall>v \<in> set vertices. length v = 3"
  shows "dot vertices (transpose (rotation_matrix_3d a b c))
           = map (apply_matrix (rotation_matrix_3d a b c)) vertices"
  unfolding dot_def using assms by (intro map_cong refl dot_transpose_row) simp

text \<open>
  \<^bold>\<open>C3.\<close> On an array of \<open>K \<ge> 1\<close> vertices of three coordinates,
  \<^verbatim>\<open>rotate_vertices\<close> returns the array whose rows are \<open>R \<cdot> v\<close> for the rows
  \<open>v\<close> of the input, which is the input multiplied on the right by the transpose of
  \<open>R\<close>; \<open>R\<close> is the product \<open>Rz \<cdot> Ry \<cdot> Rx\<close> in that order, so that each
  vertex is turned about the x-axis first, then the y-axis, then the z-axis; and the three
  factors are the standard right-handed rotations about one axis.
\<close>

theorem rotate_vertices_applies_Rz_Ry_Rx:
  assumes "vertices \<noteq> []" "\<forall>v \<in> set vertices. length v = 3"
  shows "rotate_vertices vertices tx ty tz
           = Inr (map (apply_matrix (rotation_matrix_3d tx ty tz)) vertices)
       \<and> rotate_vertices vertices tx ty tz
           = Inr (dot vertices (transpose (rotation_matrix_3d tx ty tz)))
       \<and> rotation_matrix_3d tx ty tz = dot (dot (R_z tz) (R_y ty)) (R_x tx)
       \<and> (\<forall>v \<in> set vertices.
            apply_matrix (rotation_matrix_3d tx ty tz) v = spec_Rz tz (spec_Ry ty (spec_Rx tx v)))
       \<and> apply_matrix (R_x a) [x, y, z] = spec_Rx a [x, y, z]
       \<and> apply_matrix (R_y a) [x, y, z] = spec_Ry a [x, y, z]
       \<and> apply_matrix (R_z a) [x, y, z] = spec_Rz a [x, y, z]"
proof -
  have ok: "is_Kx3 vertices"
    using assms by (simp add: is_Kx3_def list_all_iff)
  have raw: "rotate_vertices vertices tx ty tz
               = Inr (dot vertices (transpose (rotation_matrix_3d tx ty tz)))"
    using ok by (simp add: rotate_vertices_def)
  have each: "apply_matrix (rotation_matrix_3d tx ty tz) v = spec_Rz tz (spec_Ry ty (spec_Rx tx v))"
    if "v \<in> set vertices" for v
  proof -
    have "length v = 3" using assms(2) that by simp
    then obtain p q r where "v = [p, q, r]" using length_three[of v] by blast
    then show ?thesis by (simp only: apply_rotation_matrix)
  qed
  have axes: "apply_matrix (R_x a) [x, y, z] = spec_Rx a [x, y, z]"
    "apply_matrix (R_y a) [x, y, z] = spec_Ry a [x, y, z]"
    "apply_matrix (R_z a) [x, y, z] = spec_Rz a [x, y, z]"
    by (simp_all add: apply_matrix_def R_x_def R_y_def R_z_def)
  show ?thesis
    using raw each axes dot_transpose[OF assms(2)] rotation_matrix_3d_unfold by simp
qed

theorem rotate_vertices_applies_Rz_Ry_Rx_witness:
  "[[1, 2, 3]] \<noteq> ([] :: vertex list)
   \<and> length [1, 2, 3 :: real] = 3
   \<and> rotate_vertices [[1, 2, 3]] (pi / 2) 0 (pi / 2) = Inr [[3, 1, 2]]
   \<and> spec_Rx (pi / 2) (spec_Ry 0 (spec_Rz (pi / 2) [1, 2, 3])) = [- 2, - 3, 1]"
proof -
  have hyp: "[[1, 2, 3]] \<noteq> ([] :: vertex list)" "\<forall>v \<in> set [[1, 2, 3 :: real]]. length v = 3"
    by simp_all
  note inst = rotate_vertices_applies_Rz_Ry_Rx[OF hyp, of "pi / 2" 0 "pi / 2"]
  have "rotate_vertices [[1, 2, 3]] (pi / 2) 0 (pi / 2)
      = Inr [spec_Rz (pi / 2) (spec_Ry 0 (spec_Rx (pi / 2) [1, 2, 3]))]"
    using inst[THEN conjunct1]
      inst[THEN conjunct2, THEN conjunct2, THEN conjunct2, THEN conjunct1]
    by simp
  then show ?thesis by simp
qed

subsection \<open>The constructors\<close>

lemma is_Kx3_grid:
  assumes "xs \<noteq> []" "ys \<noteq> []"
  shows "is_Kx3 (grid_comprehension (\<lambda>n x m y. [a n x m y, b n x m y, c n x m y]) xs ys)"
proof -
  have "length (grid_comprehension (\<lambda>n x m y. [a n x m y, b n x m y, c n x m y]) xs ys) \<noteq> 0"
    using assms by (simp add: length_grid)
  then show ?thesis
    unfolding is_Kx3_def by (auto intro: grid_all)
qed

lemma plain_lattice_nonempty: "py_range (- 20) 22 1 \<noteq> []"
  using length_plain_lattice by auto

lemma terrain_init_eq:
  "terrain_init simplex =
     Inr \<lparr>nsteps = 1, ypoints = py_range (- 20) 22 1, xpoints = py_range (- 20) 22 1,
          nfaces = 42, offset = 0, theta_x = 0, theta_y = 0, theta_z = 0, tmp = simplex,
          m1 = \<lparr>vertexes = dot (init_verts simplex (py_range (- 20) 22 1) (py_range (- 20) 22 1))
                               (transpose (rotation_matrix_3d 0 0 0)),
                 faces = fst (topology_loop 42 init_colors),
                 faceColors = snd (topology_loop 42 init_colors)\<rparr>\<rparr>"
proof -
  have "is_Kx3 (init_verts simplex (py_range (- 20) 22 1) (py_range (- 20) 22 1))"
    unfolding init_verts_def by (rule is_Kx3_grid) (rule plain_lattice_nonempty)+
  then show ?thesis
    by (simp add: terrain_init_def rotate_vertices_def Let_def length_plain_lattice
        split: prod.splits)
qed

lemma started_plain_eq:
  "started_plain simplex =
     \<lparr>nsteps = 1, ypoints = py_range (- 20) 22 1, xpoints = py_range (- 20) 22 1,
          nfaces = 42, offset = 0, theta_x = 0, theta_y = 0, theta_z = 0, tmp = simplex,
          m1 = \<lparr>vertexes = dot (init_verts simplex (py_range (- 20) 22 1) (py_range (- 20) 22 1))
                               (transpose (rotation_matrix_3d 0 0 0)),
                 faces = fst (topology_loop 42 init_colors),
                 faceColors = snd (topology_loop 42 init_colors)\<rparr>\<rparr>"
  by (simp add: started_plain_def terrain_init_eq)

lemma terrain_init_started: "terrain_init simplex = Inr (started_plain simplex)"
  by (simp add: started_plain_eq terrain_init_eq)

lemma reshape_ok: "length flat = r * c \<Longrightarrow> \<exists>g. reshape flat r c = Inr g"
  by (simp add: reshape_def)

lemma reshape_fails: "length flat \<noteq> r * c \<Longrightarrow> reshape flat r c = Inl ValueError"
  by (simp add: reshape_def)

lemma reshape_nth:
  assumes "reshape flat r c = Inr g" "n < r" "m < c"
  shows "g ! n ! m = flat ! (n * c + m)"
proof -
  have len: "length flat = r * c" and g: "g = map (\<lambda>i. take c (drop (i * c) flat)) [0..<r]"
    using assms(1) by (auto simp: reshape_def split: if_splits)
  have "n * c + m < length flat"
  proof -
    have "n * c + m < (n + 1) * c" using assms(3) by simp
    also have "\<dots> \<le> r * c" using assms(2) by (intro mult_le_mono1) simp
    finally show ?thesis by (simp add: len)
  qed
  then show ?thesis using assms(2,3) by (simp add: g)
qed

lemma reshape_index_bound:
  assumes "n < r" "m < c"
  shows "n * c + m < r * (c::nat)"
proof -
  have "n * c + m < (n + 1) * c" using assms(2) by simp
  also have "\<dots> \<le> r * c" using assms(1) by (intro mult_le_mono1) simp
  finally show ?thesis .
qed

lemma default_amplitude_configured:
  assumes "length (xpoints_v t) * length (ypoints_v t) = 1024"
  shows "\<exists>g. default_amplitude t = Inr g
           \<and> (\<forall>n < length (xpoints_v t). \<forall>m < length (ypoints_v t). g ! n ! m = 1)"
proof -
  obtain g where g: "default_amplitude t = Inr g"
    using reshape_ok[of "replicate 1024 (1::real)" "length (xpoints_v t)" "length (ypoints_v t)"]
      assms by (auto simp: default_amplitude_def)
  have "g ! n ! m = 1" if "n < length (xpoints_v t)" "m < length (ypoints_v t)" for n m
  proof -
    have "g ! n ! m = replicate 1024 (1::real) ! (n * length (ypoints_v t) + m)"
      using g that unfolding default_amplitude_def by (rule reshape_nth)
    also have "\<dots> = 1"
      using reshape_index_bound[OF that] assms by simp
    finally show ?thesis .
  qed
  then show ?thesis using g by blast
qed

lemma mesh_None_eq:
  "mesh t off height None =
     (case default_amplitude t of
        Inl e \<Rightarrow> Inl e
      | Inr g \<Rightarrow> Inr (mesh_verts t g off, fst (build_topology (nfaces_v t)),
                        snd (build_topology (nfaces_v t))))"
  by (simp add: mesh_def Let_def split: sum.splits prod.splits)

lemma mesh_Some_eq:
  "mesh t off height (Some raw) =
     (case amplitude t raw of
        Inl e \<Rightarrow> Inl e
      | Inr g \<Rightarrow> Inr (mesh_verts t g off, fst (build_topology (nfaces_v t)),
                        snd (build_topology (nfaces_v t))))"
  by (simp add: mesh_def Let_def split: sum.splits prod.splits)

lemma visualizer_init_started:
  "visualizer_init simplex s = Inr (started simplex s)
   \<and> xpoints_v (started simplex s) = np_arange (- 20) (20 + 1.3) 1.3
   \<and> ypoints_v (started simplex s) = np_arange (- 20) (20 + 1.3) 1.3
   \<and> nfaces_v (started simplex s) = 32
   \<and> CHUNK (started simplex s) = 1024
   \<and> stream (started simplex s) = s
   \<and> noise (started simplex s) = simplex
   \<and> offset_v (started simplex s) = 0
   \<and> stdout (started simplex s) = []
   \<and> faceColors (mesh1 (started simplex s)) = snd (build_topology 32)
   \<and> faces (mesh1 (started simplex s)) = fst (build_topology 32)"
proof -
  define t0 where "t0 = \<lparr>nstep = 1.3, ypoints_v = np_arange (- 20) (20 + 1.3) 1.3, xpoints_v = np_arange (- 20) (20 + 1.3) 1.3,
      nfaces_v = length (np_arange (- 20) (20 + 1.3) 1.3), RATE = 44100,
      CHUNK = length (np_arange (- 20) (20 + 1.3) 1.3) * length (np_arange (- 20) (20 + 1.3) 1.3), stream = s, noise = simplex,
      offset_v = 0, mesh1 = \<lparr>vertexes = [], faces = [], faceColors = []\<rparr>, stdout = []\<rparr>"
  have "length (xpoints_v t0) * length (ypoints_v t0) = 1024"
    using length_audio_lattice by (simp add: t0_def)
  then obtain g where g: "default_amplitude t0 = Inr g"
    using default_amplitude_configured by blast
  have init: "visualizer_init simplex s =
      Inr (t0\<lparr>mesh1 := \<lparr>vertexes = mesh_verts t0 g 0, faces = fst (build_topology (nfaces_v t0)),
                          faceColors = snd (build_topology (nfaces_v t0))\<rparr>\<rparr>)"
    unfolding visualizer_init_def Let_def t0_def[symmetric]
    by (simp add: mesh_None_eq g split: prod.splits)
  show ?thesis
    unfolding started_def init using length_audio_lattice by (simp add: t0_def)
qed

subsection \<open>The amplitude pipeline\<close>

lemma sint8_range: "- 128 \<le> sint (b :: 8 word) \<and> sint b < 128"
  using sint_ge[of b] sint_lt[of b] by simp

lemma recentre_is_identity: "sint (int32_sub_128 (add_128 b)) = sint b"
proof -
  have up16: "sint (scast b :: 16 word) = sint b"
    by (rule sint_up_scast) (simp add: is_up)
  have plus: "sint ((scast b :: 16 word) + 128) = sint b + 128"
    using sint8_range[of b]
    by (simp add: sint_word_add up16 signed_take_bit_int_eq_self)
  have up32: "sint (scast ((scast b :: 16 word) + 128) :: 32 word) = sint b + 128"
    unfolding plus[symmetric] by (rule sint_up_scast) (simp add: is_up)
  show ?thesis
    unfolding int32_sub_128_def add_128_def
    using sint8_range[of b]
    by (simp add: sint_word_diff up32 signed_take_bit_int_eq_self)
qed

lemma scale_recentred: "scale_004 (int32_sub_128 (add_128 b)) = simplified_scale b"
  by (simp add: scale_004_def simplified_scale_def recentre_is_identity)

lemma int8_unat: "int8 (unat b) = b"
  by (simp add: int8_def)

lemma length_every_other: "length (every_other xs) = (length xs + 1) div 2"
  by (induction xs rule: every_other.induct) simp_all

lemma every_other_nth: "2 * k < length xs \<Longrightarrow> every_other xs ! k = xs ! (2 * k)"
proof (induction xs arbitrary: k rule: every_other.induct)
  case (3 x y zs)
  then show ?case by (cases k) simp_all
qed simp_all

lemma amplitude_simplified: "amplitude t raw = simplified_pipeline t raw"
  by (simp add: amplitude_def simplified_pipeline_def Let_def scale_recentred comp_def
      split: sum.splits)

lemma amplitude_wrong_length:
  "length raw \<noteq> 2 * CHUNK t \<Longrightarrow> amplitude t raw = Inl StructError"
  by (simp add: amplitude_def struct_unpack_B_def)

lemma amplitude_entries:
  assumes "CHUNK t = length (xpoints_v t) * length (ypoints_v t)" "length raw = 2 * CHUNK t"
  shows "\<exists>g. amplitude t raw = Inr g
           \<and> (\<forall>n < length (xpoints_v t). \<forall>m < length (ypoints_v t).
                 g ! n ! m = simplified_amplitude raw (length (ypoints_v t)) n m)"
proof -
  let ?r = "length (xpoints_v t)" and ?c = "length (ypoints_v t)"
  let ?flat = "map simplified_scale (every_other raw)"
  have eq: "amplitude t raw = reshape ?flat ?r ?c"
    using assms(2)
    by (simp add: amplitude_simplified simplified_pipeline_def struct_unpack_B_def comp_def
        int8_unat)
  have len: "length ?flat = ?r * ?c"
    using assms by (simp add: length_every_other)
  then obtain g where g: "reshape ?flat ?r ?c = Inr g"
    using reshape_ok by blast
  have "g ! n ! m = simplified_amplitude raw ?c n m" if "n < ?r" "m < ?c" for n m
  proof -
    have k: "n * ?c + m < ?r * ?c" using that by (rule reshape_index_bound)
    have "g ! n ! m = ?flat ! (n * ?c + m)"
      using g that by (rule reshape_nth)
    also have "\<dots> = simplified_scale (every_other raw ! (n * ?c + m))"
      using k len by simp
    also have "every_other raw ! (n * ?c + m) = raw ! (2 * (n * ?c + m))"
      using k assms by (intro every_other_nth) simp
    finally show ?thesis
      by (simp add: simplified_amplitude_def simplified_scale_def)
  qed
  then show ?thesis using eq g by auto
qed

lemma update_v_read_bytes:
  assumes "is_active (stream t)" "reads (stream t) (nread (stream t)) = Inr raw"
  shows "update_v t =
     (case amplitude t raw of
        Inl (OSError msg) \<Rightarrow>
          Inr (t\<lparr>stream := (stream t)\<lparr>nread := Suc (nread (stream t))\<rparr>,
                 stdout := stdout t @ [''Error reading stream: '' @ msg]\<rparr>)
      | Inl e \<Rightarrow> Inl e
      | Inr g \<Rightarrow>
          Inr (t\<lparr>stream := (stream t)\<lparr>nread := Suc (nread (stream t))\<rparr>,
                 mesh1 := \<lparr>vertexes = mesh_verts t g (offset_v t),
                            faces = fst (build_topology (nfaces_v t)),
                            faceColors = snd (build_topology (nfaces_v t))\<rparr>\<rparr>))"
proof -
  let ?t1 = "t\<lparr>stream := (stream t)\<lparr>nread := Suc (nread (stream t))\<rparr>\<rparr>"
  have amp: "amplitude ?t1 raw = amplitude t raw"
    by (simp add: amplitude_def split: sum.splits)
  have verts: "mesh_verts ?t1 g off = mesh_verts t g off" for g off
    by (simp add: mesh_verts_def)
  show ?thesis
    using assms
    by (simp add: update_v_def stream_read_def mesh_Some_eq amp verts
        split: sum.splits py_error.splits prod.splits)
qed

text \<open>
  \<^bold>\<open>C5.\<close> A buffer whose length is not \<open>2 * N * M\<close> bytes makes \<^verbatim>\<open>mesh\<close> raise
  \<^verbatim>\<open>struct.error\<close>, and a tick that reads such a buffer raises it too: nothing is
  truncated, padded or reshaped.
\<close>

theorem wrong_length_buffer_raises:
  assumes "CHUNK t = length (xpoints_v t) * length (ypoints_v t)"
    and "length raw \<noteq> 2 * (length (xpoints_v t) * length (ypoints_v t))"
  shows "mesh t off height (Some raw) = Inl StructError
       \<and> (is_active (stream t) \<and> reads (stream t) (nread (stream t)) = Inr raw
            \<longrightarrow> update_v t = Inl StructError)"
proof -
  have amp: "amplitude t raw = Inl StructError"
    using assms by (intro amplitude_wrong_length) simp
  then show ?thesis
    by (auto simp: mesh_Some_eq update_v_read_bytes)
qed

theorem wrong_length_buffer_raises_witness:
  "CHUNK (started demo_noise short_stream)
     = length (xpoints_v (started demo_noise short_stream))
       * length (ypoints_v (started demo_noise short_stream))
   \<and> length (replicate 100 (0 :: byte)) \<noteq> 2 * 1024
   \<and> mesh (started demo_noise short_stream) 0 3.5 (Some (replicate 100 0)) = Inl StructError
   \<and> update_v (started demo_noise short_stream) = Inl StructError"
proof -
  let ?t = "started demo_noise short_stream"
  note init = visualizer_init_started[of demo_noise short_stream]
  have chunk: "CHUNK ?t = length (xpoints_v ?t) * length (ypoints_v ?t)"
    using init length_audio_lattice by simp
  have len: "length (replicate 100 (0 :: byte)) \<noteq> 2 * (length (xpoints_v ?t) * length (ypoints_v ?t))"
    using init length_audio_lattice by simp
  have act: "is_active (stream ?t) \<and> reads (stream ?t) (nread (stream ?t)) = Inr (replicate 100 0)"
    using init by (simp add: short_stream_def)
  show ?thesis
    using wrong_length_buffer_raises[OF chunk len, of 0 "3.5"] act chunk by simp
qed

text \<open>
  \<^bold>\<open>C8.\<close> The amplitude pipeline of \<^verbatim>\<open>mesh\<close> is equal, on every byte string, to the
  simplified pipeline without the pair \<^verbatim>\<open>+ 128\<close>, \<^verbatim>\<open>- 128\<close>; on a string of
  \<open>2 * N * M\<close> bytes it returns the grid whose entry \<open>(n, m)\<close> is the byte at position
  \<open>2 * (n * M + m)\<close>, read as a signed 8-bit sample, times \<open>0.04\<close>.
\<close>

theorem amplitude_pipeline_is_simplified:
  "amplitude t raw = simplified_pipeline t raw
   \<and> (CHUNK t = length (xpoints_v t) * length (ypoints_v t) \<and> length raw = 2 * CHUNK t \<longrightarrow>
        (\<exists>g. amplitude t raw = Inr g
           \<and> (\<forall>n < length (xpoints_v t). \<forall>m < length (ypoints_v t).
                 g ! n ! m = simplified_amplitude raw (length (ypoints_v t)) n m)))"
  using amplitude_simplified amplitude_entries by blast

theorem amplitude_pipeline_is_simplified_witness:
  "CHUNK (started demo_noise silent_stream) = 32 * 32
   \<and> length (replicate 2048 (200 :: byte)) = 2 * 1024
   \<and> (\<exists>g. amplitude (started demo_noise silent_stream) (replicate 2048 200) = Inr g
          \<and> g ! 3 ! 7 = - 2.24)"
proof -
  let ?t = "started demo_noise silent_stream"
  let ?raw = "replicate 2048 (200 :: byte)"
  note init = visualizer_init_started[of demo_noise silent_stream]
  have hyp: "CHUNK ?t = length (xpoints_v ?t) * length (ypoints_v ?t) \<and> length ?raw = 2 * CHUNK ?t"
    using init length_audio_lattice by simp
  then obtain g where g: "amplitude ?t ?raw = Inr g"
    and entries: "\<forall>n < length (xpoints_v ?t). \<forall>m < length (ypoints_v ?t).
                 g ! n ! m = simplified_amplitude ?raw (length (ypoints_v ?t)) n m"
    using amplitude_pipeline_is_simplified[of ?t ?raw] by blast
  have "g ! 3 ! 7 = simplified_amplitude ?raw 32 3 7"
    using entries init length_audio_lattice by simp
  also have "\<dots> = - 2.24"
    by (simp add: simplified_amplitude_def)
  finally show ?thesis using g init by auto
qed

subsection \<open>Heights\<close>

lemma update_verts_nth:
  assumes "n < length (xpoints t)" "m < length (ypoints t)"
  shows "update_verts t ! (n * length (ypoints t) + m)
           = [real_of_int (xpoints t ! n), real_of_int (ypoints t ! m),
              2.5 * tmp t (real n / 5 + offset t) (real m / 5 + offset t)]"
  unfolding update_verts_def using assms by (rule grid_nth)

lemma mesh_verts_nth:
  assumes "n < length (xpoints_v t)" "m < length (ypoints_v t)"
  shows "mesh_verts t g off ! (n * length (ypoints_v t) + m)
           = [xpoints_v t ! n, ypoints_v t ! m,
              g ! n ! m * noise t (real n / 5.5 + off) (real m / 5.2 + off)]"
  unfolding mesh_verts_def using assms by (rule grid_nth)

lemma update_verts_thetas:
  "update_verts (t\<lparr>theta_x := a, theta_y := b, theta_z := c\<rparr>) = update_verts t"
  by (simp add: update_verts_def)

lemma update_eq:
  "update t =
     (case rotate_vertices (update_verts t) (theta_x t - pi / 60) (theta_y t + pi / 40)
             (theta_z t - pi / 30) of
        Inl e \<Rightarrow> Inl e
      | Inr rotated_verts \<Rightarrow>
          Inr (t\<lparr>theta_x := theta_x t - pi / 60, theta_y := theta_y t + pi / 40,
                 theta_z := theta_z t - pi / 30,
                 m1 := \<lparr>vertexes = rotated_verts, faces = fst (build_topology (nfaces t)),
                        faceColors = snd (build_topology (nfaces t))\<rparr>,
                 offset := offset t - 0.18\<rparr>))"
  by (simp add: update_def Let_def update_verts_thetas split: sum.splits prod.splits)

lemma update_verts_Kx3:
  assumes "xpoints t \<noteq> []" "ypoints t \<noteq> []"
  shows "is_Kx3 (update_verts t)"
  unfolding update_verts_def using assms by (rule is_Kx3_grid)

lemma update_succeeds:
  assumes "xpoints t \<noteq> []" "ypoints t \<noteq> []"
  shows "update t =
     Inr (t\<lparr>theta_x := theta_x t - pi / 60, theta_y := theta_y t + pi / 40,
            theta_z := theta_z t - pi / 30,
            m1 := \<lparr>vertexes = dot (update_verts t)
                      (transpose (rotation_matrix_3d (theta_x t - pi / 60) (theta_y t + pi / 40)
                         (theta_z t - pi / 30))),
                   faces = fst (build_topology (nfaces t)),
                   faceColors = snd (build_topology (nfaces t))\<rparr>,
            offset := offset t - 0.18\<rparr>)"
  using update_verts_Kx3[OF assms] by (simp add: update_eq rotate_vertices_def)

text \<open>
  \<^bold>\<open>C2\<close> (as amended). The height of node \<open>(n, m)\<close> is the noise sampled at the lattice
  \<^emph>\<open>indices\<close>, not at the world coordinates: in the plain mode
  \<open>z = 2.5 * noise2(n / 5 + offset, m / 5 + offset)\<close>, and in the audio mode
  \<open>z = amp(n, m) * noise2(n / 5.5 + offset, m / 5.2 + offset)\<close>. The plain-mode tick
  publishes the rotation of the array with these heights.
\<close>

theorem heights_sample_noise_at_indices:
  assumes "n < length (xpoints t)" "m < length (ypoints t)"
    and "i < length (xpoints_v v)" "j < length (ypoints_v v)"
  shows "update_verts t ! (n * length (ypoints t) + m)
           = [real_of_int (xpoints t ! n), real_of_int (ypoints t ! m),
              index_height (tmp t) 2.5 5 5 (offset t) n m]
       \<and> mesh_verts v g off ! (i * length (ypoints_v v) + j)
           = [xpoints_v v ! i, ypoints_v v ! j,
              g ! i ! j * index_height (noise v) 1 5.5 5.2 off i j]
       \<and> (\<exists>t'. update t = Inr t'
             \<and> rotate_vertices (update_verts t) (theta_x t') (theta_y t') (theta_z t')
                 = Inr (vertexes (m1 t')))"
proof -
  have ne: "xpoints t \<noteq> []" "ypoints t \<noteq> []"
    using assms(1,2) by auto
  have "rotate_vertices (update_verts t) a b c
          = Inr (dot (update_verts t) (transpose (rotation_matrix_3d a b c)))" for a b c
    using update_verts_Kx3[OF ne] by (simp add: rotate_vertices_def)
  then have "\<exists>t'. update t = Inr t'
             \<and> rotate_vertices (update_verts t) (theta_x t') (theta_y t') (theta_z t')
                 = Inr (vertexes (m1 t'))"
    by (simp add: update_succeeds[OF ne])
  then show ?thesis
    using update_verts_nth[OF assms(1,2)] mesh_verts_nth[OF assms(3,4), of g off]
    by (simp add: index_height_def)
qed

lemma plain_lattice_nth: "k < 42 \<Longrightarrow> py_range (- 20) 22 1 ! k = int k - 20"
  by (simp add: py_range_def)

theorem heights_sample_noise_at_indices_witness:
  "(5::nat) < length (xpoints (started_plain demo_noise))
   \<and> (0::nat) < length (ypoints (started_plain demo_noise))
   \<and> (11::nat) < length (xpoints_v (started demo_noise idle_stream))
   \<and> (0::nat) < length (ypoints_v (started demo_noise idle_stream))
   \<and> update_verts (started_plain demo_noise) ! (5 * 42 + 0) = [- 15, - 20, 5 / 4]
   \<and> mesh_verts (started demo_noise idle_stream) (replicate 32 (replicate 32 3)) 0 ! (11 * 32 + 0) ! 2
        = 6 / 5"
proof -
  let ?t = "started_plain demo_noise" and ?v = "started demo_noise idle_stream"
  note init = visualizer_init_started[of demo_noise idle_stream]
  have hyp: "5 < length (xpoints ?t)" "0 < length (ypoints ?t)"
    "11 < length (xpoints_v ?v)" "0 < length (ypoints_v ?v)"
    using init length_audio_lattice by (simp_all add: started_plain_eq length_plain_lattice)
  note inst = heights_sample_noise_at_indices[OF hyp, of "replicate 32 (replicate 32 3)" 0]
  have plain: "update_verts ?t ! (5 * 42 + 0) = [- 15, - 20, 5 / 4]"
    using inst[THEN conjunct1]
    by (simp add: started_plain_eq length_plain_lattice plain_lattice_nth index_height_def
        demo_noise_def)
  have audio: "mesh_verts ?v (replicate 32 (replicate 32 3)) 0 ! (11 * 32 + 0) ! 2 = 6 / 5"
    using inst[THEN conjunct2, THEN conjunct1] init length_audio_lattice
    by (simp add: index_height_def demo_noise_def)
  show ?thesis using hyp plain audio by simp
qed

theorem heights_at_world_coordinates_counterexample:
  "terrain_init demo_noise = Inr (started_plain demo_noise)
   \<and> update_verts (started_plain demo_noise) ! (0 * 42 + 0) ! 2 = 0
   \<and> spec_height (tmp (started_plain demo_noise)) 2.5 5 5
        (map real_of_int (xpoints (started_plain demo_noise)))
        (map real_of_int (ypoints (started_plain demo_noise)))
        (offset (started_plain demo_noise)) 0 0 = - 10 / 17
   \<and> update_verts (started_plain demo_noise) ! (0 * 42 + 0) ! 2
       \<noteq> spec_height (tmp (started_plain demo_noise)) 2.5 5 5
           (map real_of_int (xpoints (started_plain demo_noise)))
           (map real_of_int (ypoints (started_plain demo_noise)))
           (offset (started_plain demo_noise)) 0 0"
proof -
  let ?t = "started_plain demo_noise"
  have "update_verts ?t ! (0 * length (ypoints ?t) + 0) ! 2 = 0"
    by (subst update_verts_nth)
      (simp_all add: started_plain_eq length_plain_lattice demo_noise_def)
  then have code: "update_verts ?t ! (0 * 42 + 0) ! 2 = 0"
    by (simp add: started_plain_eq length_plain_lattice)
  have claimed: "spec_height (tmp ?t) 2.5 5 5 (map real_of_int (xpoints ?t))
      (map real_of_int (ypoints ?t)) (offset ?t) 0 0 = - 10 / 17"
    by (simp add: spec_height_def started_plain_eq length_plain_lattice plain_lattice_nth
        demo_noise_def)
  show ?thesis using code claimed terrain_init_started by simp
qed

subsection \<open>The default buffer\<close>

lemma default_amplitude_fails:
  "length (xpoints_v t) * length (ypoints_v t) \<noteq> 1024 \<Longrightarrow> default_amplitude t = Inl ValueError"
  unfolding default_amplitude_def by (rule reshape_fails) simp

text \<open>
  \<^bold>\<open>C10.\<close> Without a buffer, \<^verbatim>\<open>mesh\<close> reshapes a constant array of exactly 1024 ones
  to the lattice. On a lattice of 1024 nodes this gives the grid of ones and a surface; on
  any other lattice the call raises \<^verbatim>\<open>ValueError\<close>. The configured lattice
  (\<open>-20\<close> to \<open>20 + step\<close>, \<open>step = 1.3\<close>) has \<open>32 \<times> 32 = 1024\<close> nodes, so the
  constructor succeeds.
\<close>

theorem default_buffer_needs_1024_nodes:
  "default_amplitude t
     = reshape (replicate 1024 1) (length (xpoints_v t)) (length (ypoints_v t))
   \<and> (length (xpoints_v t) * length (ypoints_v t) = 1024 \<longrightarrow>
        (\<exists>g. default_amplitude t = Inr g
           \<and> (\<forall>n < length (xpoints_v t). \<forall>m < length (ypoints_v t). g ! n ! m = 1)
           \<and> mesh t off height None
               = Inr (mesh_verts t g off, fst (build_topology (nfaces_v t)),
                      snd (build_topology (nfaces_v t)))))
   \<and> (length (xpoints_v t) * length (ypoints_v t) \<noteq> 1024 \<longrightarrow>
        mesh t off height None = Inl ValueError)
   \<and> length (np_arange (- 20) (20 + 1.3) 1.3) = 32
   \<and> visualizer_init simplex s = Inr (started simplex s)
   \<and> length (xpoints_v (started simplex s)) * length (ypoints_v (started simplex s)) = 1024"
proof -
  have ok: "\<exists>g. default_amplitude t = Inr g
           \<and> (\<forall>n < length (xpoints_v t). \<forall>m < length (ypoints_v t). g ! n ! m = 1)
           \<and> mesh t off height None
               = Inr (mesh_verts t g off, fst (build_topology (nfaces_v t)),
                      snd (build_topology (nfaces_v t)))"
    if nodes: "length (xpoints_v t) * length (ypoints_v t) = 1024"
  proof -
    obtain g where g: "default_amplitude t = Inr g"
      "\<forall>n < length (xpoints_v t). \<forall>m < length (ypoints_v t). g ! n ! m = 1"
      using default_amplitude_configured[OF nodes] by blast
    then show ?thesis by (auto simp: mesh_None_eq)
  qed
  have bad: "mesh t off height None = Inl ValueError"
    if "length (xpoints_v t) * length (ypoints_v t) \<noteq> 1024"
    using default_amplitude_fails[OF that] by (simp add: mesh_None_eq)
  have nodes: "length (xpoints_v (started simplex s)) * length (ypoints_v (started simplex s)) = 1024"
    using visualizer_init_started[of simplex s] length_audio_lattice by simp
  show ?thesis
    using ok bad nodes visualizer_init_started[of simplex s] length_audio_lattice
    by (simp add: default_amplitude_def)
qed

theorem default_buffer_needs_1024_nodes_witness:
  "length (xpoints_v (started demo_noise idle_stream))
     * length (ypoints_v (started demo_noise idle_stream)) = 1024
   \<and> (\<exists>g. mesh (started demo_noise idle_stream) 0 3.5 None
            = Inr (mesh_verts (started demo_noise idle_stream) g 0,
                   fst (build_topology 32), snd (build_topology 32)))
   \<and> length (xpoints_v ((started demo_noise idle_stream)\<lparr>xpoints_v := [0, 1]\<rparr>))
       * length (ypoints_v ((started demo_noise idle_stream)\<lparr>xpoints_v := [0, 1]\<rparr>)) \<noteq> 1024
   \<and> mesh ((started demo_noise idle_stream)\<lparr>xpoints_v := [0, 1]\<rparr>) 0 3.5 None = Inl ValueError"
proof -
  let ?v = "started demo_noise idle_stream"
  let ?w = "?v\<lparr>xpoints_v := [0, 1]\<rparr>"
  note init = visualizer_init_started[of demo_noise idle_stream]
  have good: "length (xpoints_v ?v) * length (ypoints_v ?v) = 1024"
    using init length_audio_lattice by simp
  have other: "length (xpoints_v ?w) * length (ypoints_v ?w) \<noteq> 1024"
    using init length_audio_lattice by simp
  have "\<exists>g. mesh ?v 0 3.5 None
            = Inr (mesh_verts ?v g 0, fst (build_topology 32), snd (build_topology 32))"
    using default_buffer_needs_1024_nodes[of ?v 0 "3.5" demo_noise idle_stream] good init
    by auto
  moreover have "mesh ?w 0 3.5 None = Inl ValueError"
    using default_buffer_needs_1024_nodes[of ?w 0 "3.5" demo_noise idle_stream] other
    by blast
  ultimately show ?thesis using good other by blast
qed

text \<open>
  \<^bold>\<open>C9.\<close> With an amplitude of 1 at every node the amplitude factor drops out: the
  height of node \<open>(n, m)\<close> is the noise term alone,
  \<open>noise2(n / 5.5 + offset, m / 5.2 + offset)\<close>, which is the plain-mode formula
  \<open>heightScale * noise2(n / kx + offset, m / ky + offset)\<close> at \<open>heightScale = 1\<close> with
  the divisors of the audio mode. This holds for any grid of ones, for the default buffer
  of \<^verbatim>\<open>mesh\<close> called without data, and for a captured buffer whose samples all map
  to 1 (bytes of value 25).
\<close>

theorem unit_amplitude_leaves_noise_term:
  assumes "n < length (xpoints_v t)" "m < length (ypoints_v t)"
  shows "((\<forall>i < length (xpoints_v t). \<forall>j < length (ypoints_v t). g ! i ! j = 1) \<longrightarrow>
            mesh_verts t g off ! (n * length (ypoints_v t) + m) ! 2
              = index_height (noise t) 1 5.5 5.2 off n m)
       \<and> (length (xpoints_v t) * length (ypoints_v t) = 1024 \<longrightarrow>
            (\<exists>verts fs cs. mesh t off height None = Inr (verts, fs, cs)
               \<and> verts ! (n * length (ypoints_v t) + m) ! 2
                   = index_height (noise t) 1 5.5 5.2 off n m))
       \<and> (CHUNK t = length (xpoints_v t) * length (ypoints_v t) \<and> length raw = 2 * CHUNK t
            \<and> (\<forall>k < CHUNK t. raw ! (2 * k) = 25) \<longrightarrow>
            (\<exists>verts fs cs. mesh t off height (Some raw) = Inr (verts, fs, cs)
               \<and> verts ! (n * length (ypoints_v t) + m) ! 2
                   = index_height (noise t) 1 5.5 5.2 off n m))
       \<and> index_height (noise t) 1 5.5 5.2 off n m
           = noise t (real n / 5.5 + off) (real m / 5.2 + off)"
proof -
  have ones: "mesh_verts t h off ! (n * length (ypoints_v t) + m) ! 2
                = index_height (noise t) 1 5.5 5.2 off n m"
    if "\<forall>i < length (xpoints_v t). \<forall>j < length (ypoints_v t). h ! i ! j = 1" for h
    using that assms by (simp add: mesh_verts_nth index_height_def)
  have dflt: "\<exists>verts fs cs. mesh t off height None = Inr (verts, fs, cs)
               \<and> verts ! (n * length (ypoints_v t) + m) ! 2
                   = index_height (noise t) 1 5.5 5.2 off n m"
    if nodes: "length (xpoints_v t) * length (ypoints_v t) = 1024"
  proof -
    obtain h where h: "default_amplitude t = Inr h"
      "\<forall>i < length (xpoints_v t). \<forall>j < length (ypoints_v t). h ! i ! j = 1"
      using default_amplitude_configured[OF nodes] by blast
    show ?thesis using h(1) ones[OF h(2)] by (simp add: mesh_None_eq)
  qed
  have capt: "\<exists>verts fs cs. mesh t off height (Some raw) = Inr (verts, fs, cs)
               \<and> verts ! (n * length (ypoints_v t) + m) ! 2
                   = index_height (noise t) 1 5.5 5.2 off n m"
    if c: "CHUNK t = length (xpoints_v t) * length (ypoints_v t)" "length raw = 2 * CHUNK t"
      and b: "\<forall>k < CHUNK t. raw ! (2 * k) = 25"
  proof -
    obtain h where h: "amplitude t raw = Inr h"
      "\<forall>i < length (xpoints_v t). \<forall>j < length (ypoints_v t).
         h ! i ! j = simplified_amplitude raw (length (ypoints_v t)) i j"
      using amplitude_entries[OF c] by blast
    have "h ! i ! j = 1" if ij: "i < length (xpoints_v t)" "j < length (ypoints_v t)" for i j
    proof -
      have "i * length (ypoints_v t) + j < CHUNK t"
        unfolding c(1) using ij by (rule reshape_index_bound)
      then have "raw ! (2 * (i * length (ypoints_v t) + j)) = 25" using b by blast
      then have "simplified_amplitude raw (length (ypoints_v t)) i j = 1"
        by (simp add: simplified_amplitude_def)
      moreover have "h ! i ! j = simplified_amplitude raw (length (ypoints_v t)) i j"
        using h(2) ij by blast
      ultimately show ?thesis by simp
    qed
    then have "\<forall>i < length (xpoints_v t). \<forall>j < length (ypoints_v t). h ! i ! j = 1" by blast
    then show ?thesis using h(1) ones by (simp add: mesh_Some_eq)
  qed
  show ?thesis using ones dflt capt by (simp add: index_height_def)
qed

theorem unit_amplitude_leaves_noise_term_witness:
  "(11::nat) < length (xpoints_v (started demo_noise idle_stream))
   \<and> (0::nat) < length (ypoints_v (started demo_noise idle_stream))
   \<and> length (xpoints_v (started demo_noise idle_stream))
       * length (ypoints_v (started demo_noise idle_stream)) = 1024
   \<and> (\<exists>verts fs cs. mesh (started demo_noise idle_stream) 0 3.5 None = Inr (verts, fs, cs)
         \<and> verts ! (11 * 32 + 0) ! 2 = 2 / 5)
   \<and> length (replicate 2048 (25 :: byte)) = 2 * CHUNK (started demo_noise idle_stream)
   \<and> (\<exists>verts fs cs. mesh (started demo_noise idle_stream) 0 3.5 (Some (replicate 2048 25))
                       = Inr (verts, fs, cs)
         \<and> verts ! (11 * 32 + 0) ! 2 = 2 / 5)"
proof -
  let ?v = "started demo_noise idle_stream"
  note init = visualizer_init_started[of demo_noise idle_stream]
  have hyp: "11 < length (xpoints_v ?v)" "0 < length (ypoints_v ?v)"
    using init length_audio_lattice by simp_all
  have nodes: "length (xpoints_v ?v) * length (ypoints_v ?v) = 1024"
    using init length_audio_lattice by simp
  have raw: "CHUNK ?v = length (xpoints_v ?v) * length (ypoints_v ?v)
      \<and> length (replicate 2048 (25 :: byte)) = 2 * CHUNK ?v
      \<and> (\<forall>k < CHUNK ?v. replicate 2048 (25 :: byte) ! (2 * k) = 25)"
    using init length_audio_lattice by simp
  have val: "index_height (noise ?v) 1 5.5 5.2 0 11 0 = 2 / 5"
    using init by (simp add: index_height_def demo_noise_def)
  have len: "length (ypoints_v ?v) = 32"
    using init length_audio_lattice by simp
  note inst = unit_amplitude_leaves_noise_term[OF hyp, of _ 0 "3.5" "replicate 2048 25"]
  obtain verts fs cs where "mesh ?v 0 3.5 None = Inr (verts, fs, cs)"
    and "verts ! (11 * length (ypoints_v ?v) + 0) ! 2 = index_height (noise ?v) 1 5.5 5.2 0 11 0"
    using inst[THEN conjunct2, THEN conjunct1] nodes by blast
  then have a: "\<exists>verts fs cs. mesh ?v 0 3.5 None = Inr (verts, fs, cs)
         \<and> verts ! (11 * 32 + 0) ! 2 = 2 / 5"
    unfolding len val by blast
  obtain verts' fs' cs' where "mesh ?v 0 3.5 (Some (replicate 2048 25)) = Inr (verts', fs', cs')"
    and "verts' ! (11 * length (ypoints_v ?v) + 0) ! 2 = index_height (noise ?v) 1 5.5 5.2 0 11 0"
    using inst[THEN conjunct2, THEN conjunct2, THEN conjunct1] raw by blast
  then have b: "\<exists>verts fs cs. mesh ?v 0 3.5 (Some (replicate 2048 25)) = Inr (verts, fs, cs)
         \<and> verts ! (11 * 32 + 0) ! 2 = 2 / 5"
    unfolding len val by blast
  show ?thesis using hyp nodes a b raw by blast
qed

subsection \<open>Ticks\<close>

lemma update_v_inactive: "\<not> is_active (stream t) \<Longrightarrow> update_v t = Inr t"
  by (simp add: update_v_def)

lemma update_v_read_error:
  assumes "is_active (stream t)" "reads (stream t) (nread (stream t)) = Inl msg"
  shows "update_v t =
     Inr (t\<lparr>stream := (stream t)\<lparr>nread := Suc (nread (stream t))\<rparr>,
            stdout := stdout t @ [''Error reading stream: '' @ msg]\<rparr>)"
  using assms by (simp add: update_v_def stream_read_def)

lemma update_v_keeps_offset:
  assumes "update_v t = Inr t'"
  shows "offset_v t' = offset_v t"
proof (cases "is_active (stream t)")
  case False
  then show ?thesis using assms by (simp add: update_v_inactive)
next
  case True
  show ?thesis
  proof (cases "reads (stream t) (nread (stream t))")
    case (Inl msg)
    then show ?thesis using assms True by (auto simp: update_v_read_error)
  next
    case (Inr raw)
    then show ?thesis
      using assms True
      by (auto simp: update_v_read_bytes split: sum.splits py_error.splits)
  qed
qed

text \<open>
  \<^bold>\<open>C6.\<close> When the read of an audio-mode tick raises \<^verbatim>\<open>OSError\<close>, \<^verbatim>\<open>update\<close>
  returns normally; the published mesh, the offset and every other field of the object are
  as before (only the stream has counted one more read), and one line reporting the error
  has been printed.
\<close>

theorem read_error_skips_tick:
  assumes "is_active (stream t)" "reads (stream t) (nread (stream t)) = Inl msg"
  shows "update_v t =
           Inr (t\<lparr>stream := (stream t)\<lparr>nread := Suc (nread (stream t))\<rparr>,
                  stdout := stdout t @ [''Error reading stream: '' @ msg]\<rparr>)
       \<and> (\<exists>t'. update_v t = Inr t'
             \<and> mesh1 t' = mesh1 t \<and> offset_v t' = offset_v t
             \<and> xpoints_v t' = xpoints_v t \<and> ypoints_v t' = ypoints_v t
             \<and> nfaces_v t' = nfaces_v t \<and> CHUNK t' = CHUNK t \<and> noise t' = noise t
             \<and> stdout t' = stdout t @ [''Error reading stream: '' @ msg])"
  using update_v_read_error[OF assms] by simp

theorem read_error_skips_tick_witness:
  "is_active (stream (started demo_noise broken_stream))
   \<and> reads (stream (started demo_noise broken_stream))
        (nread (stream (started demo_noise broken_stream))) = Inl ''[Errno -9988] Stream closed''
   \<and> (\<exists>t'. update_v (started demo_noise broken_stream) = Inr t'
         \<and> mesh1 t' = mesh1 (started demo_noise broken_stream)
         \<and> offset_v t' = 0
         \<and> stdout t' = [''Error reading stream: [Errno -9988] Stream closed''])"
proof -
  let ?t = "started demo_noise broken_stream"
  note init = visualizer_init_started[of demo_noise broken_stream]
  have hyp: "is_active (stream ?t)"
    "reads (stream ?t) (nread (stream ?t)) = Inl ''[Errno -9988] Stream closed''"
    using init by (simp_all add: broken_stream_def)
  show ?thesis
    using read_error_skips_tick[OF hyp, THEN conjunct2] hyp init by auto
qed

text \<open>
  \<^bold>\<open>C4\<close> (as amended). A plain-mode tick on a non-empty lattice returns, having moved
  \<open>theta_x\<close> by \<open>-\<pi>/60\<close>, \<open>theta_y\<close> by \<open>+\<pi>/40\<close>, \<open>theta_z\<close> by \<open>-\<pi>/30\<close> and the
  offset by \<open>-0.18\<close>. The audio-mode object has no rotation angles; its tick never changes
  the offset; on an inactive stream it changes nothing and reads nothing; on an active
  stream that delivers \<open>2 * N * M\<close> bytes it makes one read and publishes the surface of
  that buffer.
\<close>

theorem tick_advances_animation_state:
  "(xpoints t \<noteq> [] \<and> ypoints t \<noteq> [] \<longrightarrow>
      (\<exists>t'. update t = Inr t'
         \<and> theta_x t' = theta_x t - pi / 60 \<and> theta_y t' = theta_y t + pi / 40
         \<and> theta_z t' = theta_z t - pi / 30 \<and> offset t' = offset t - 0.18))
   \<and> (\<forall>v'. update_v v = Inr v' \<longrightarrow> offset_v v' = offset_v v)
   \<and> (\<not> is_active (stream v) \<longrightarrow> update_v v = Inr v)
   \<and> (is_active (stream v) \<and> reads (stream v) (nread (stream v)) = Inr raw
        \<and> CHUNK v = length (xpoints_v v) * length (ypoints_v v) \<and> length raw = 2 * CHUNK v \<longrightarrow>
      (\<exists>v' g. update_v v = Inr v' \<and> amplitude v raw = Inr g
         \<and> nread (stream v') = Suc (nread (stream v)) \<and> offset_v v' = offset_v v
         \<and> vertexes (mesh1 v') = mesh_verts v g (offset_v v)))"
proof -
  have plain: "\<exists>t'. update t = Inr t'
         \<and> theta_x t' = theta_x t - pi / 60 \<and> theta_y t' = theta_y t + pi / 40
         \<and> theta_z t' = theta_z t - pi / 30 \<and> offset t' = offset t - 0.18"
    if ne: "xpoints t \<noteq> []" "ypoints t \<noteq> []"
    by (simp add: update_succeeds[OF ne])
  have pull: "\<exists>v' g. update_v v = Inr v' \<and> amplitude v raw = Inr g
         \<and> nread (stream v') = Suc (nread (stream v)) \<and> offset_v v' = offset_v v
         \<and> vertexes (mesh1 v') = mesh_verts v g (offset_v v)"
    if act: "is_active (stream v)" "reads (stream v) (nread (stream v)) = Inr raw"
      and len: "CHUNK v = length (xpoints_v v) * length (ypoints_v v)" "length raw = 2 * CHUNK v"
  proof -
    obtain g where g: "amplitude v raw = Inr g"
      using amplitude_entries[OF len] by blast
    show ?thesis by (simp add: update_v_read_bytes[OF act] g)
  qed
  show ?thesis
    using plain pull update_v_keeps_offset update_v_inactive by blast
qed

theorem tick_advances_animation_state_witness:
  "xpoints (started_plain demo_noise) \<noteq> [] \<and> ypoints (started_plain demo_noise) \<noteq> []
   \<and> (\<exists>t'. update (started_plain demo_noise) = Inr t'
         \<and> theta_x t' = - (pi / 60) \<and> theta_y t' = pi / 40 \<and> theta_z t' = - (pi / 30)
         \<and> offset t' = - 0.18)
   \<and> is_active (stream (started demo_noise idle_stream)) = False
   \<and> update_v (started demo_noise idle_stream) = Inr (started demo_noise idle_stream)
   \<and> is_active (stream (started demo_noise silent_stream))
   \<and> (\<exists>v'. update_v (started demo_noise silent_stream) = Inr v'
         \<and> nread (stream v') = 1 \<and> offset_v v' = 0)"
proof -
  let ?t = "started_plain demo_noise"
  let ?i = "started demo_noise idle_stream"
  let ?s = "started demo_noise silent_stream"
  note init_i = visualizer_init_started[of demo_noise idle_stream]
  note init_s = visualizer_init_started[of demo_noise silent_stream]
  have ne: "xpoints ?t \<noteq> [] \<and> ypoints ?t \<noteq> []"
    by (simp add: started_plain_eq plain_lattice_nonempty)
  have start: "theta_x ?t = 0" "theta_y ?t = 0" "theta_z ?t = 0" "offset ?t = 0"
    by (simp_all add: started_plain_eq)
  have idle: "\<not> is_active (stream ?i)"
    using init_i by (simp add: idle_stream_def)
  have act: "is_active (stream ?s) \<and> reads (stream ?s) (nread (stream ?s)) = Inr (replicate 2048 0)
      \<and> CHUNK ?s = length (xpoints_v ?s) * length (ypoints_v ?s)
      \<and> length (replicate 2048 (0 :: byte)) = 2 * CHUNK ?s"
    using init_s length_audio_lattice by (simp add: silent_stream_def)
  have zero: "nread (stream ?s) = 0" "offset_v ?s = 0"
    using init_s by (simp_all add: silent_stream_def)
  note inst_t = tick_advances_animation_state[of ?t ?i "[]", THEN conjunct1]
  note inst_i = tick_advances_animation_state[of ?t ?i "[]", THEN conjunct2, THEN conjunct2,
      THEN conjunct1]
  note inst_s = tick_advances_animation_state[of ?t ?s "replicate 2048 0", THEN conjunct2,
      THEN conjunct2, THEN conjunct2]
  have a: "\<exists>t'. update ?t = Inr t'
         \<and> theta_x t' = - (pi / 60) \<and> theta_y t' = pi / 40 \<and> theta_z t' = - (pi / 30)
         \<and> offset t' = - 0.18"
    using inst_t ne unfolding start by simp
  have b: "update_v ?i = Inr ?i"
    using inst_i idle by blast
  have c: "\<exists>v'. update_v ?s = Inr v' \<and> nread (stream v') = 1 \<and> offset_v v' = 0"
    using inst_s act unfolding zero by auto
  show ?thesis using ne a idle b act c by blast
qed

theorem every_tick_pulls_buffer_counterexample:
  "visualizer_init demo_noise idle_stream = Inr (started demo_noise idle_stream)
   \<and> update_v (started demo_noise idle_stream) = Inr (started demo_noise idle_stream)
   \<and> nread (stream (started demo_noise idle_stream)) = 0
   \<and> nread (stream (projr (update_v (started demo_noise idle_stream)))) = 0"
proof -
  note init = visualizer_init_started[of demo_noise idle_stream]
  have "\<not> is_active (stream (started demo_noise idle_stream))"
    using init by (simp add: idle_stream_def)
  then have "update_v (started demo_noise idle_stream) = Inr (started demo_noise idle_stream)"
    by (rule update_v_inactive)
  then show ?thesis using init by (simp add: idle_stream_def)
qed

subsection \<open>Colors\<close>

lemma build_topology_colors_nth:
  assumes "m < N - 1" "n < N - 1" "j < 2"
  shows "snd (build_topology N) ! (2 * (m * (N - 1) + n) + j) = quad_colors N m n ! j"
proof -
  have idx: "2 * (m * (N - 1) + n) + j = m * (2 * (N - 1)) + (n * 2 + j)"
    by (simp add: algebra_simps)
  show ?thesis
    unfolding idx build_topology_colors
    by (rule loop_colors_nth[where col = "quad_colors N", OF length_quad_colors assms])
qed

lemma init_colors_all_zero:
  "c \<in> set (snd (topology_loop N init_colors)) \<Longrightarrow> c = [0, 0, 0, 0]"
  by (auto simp: topology_loop_eq init_colors_def split: if_splits)

lemma mesh_colors:
  assumes "mesh v off height wf_data = Inr (verts, fs, cs)"
  shows "cs = snd (build_topology (nfaces_v v))"
  using assms by (cases wf_data) (auto simp: mesh_None_eq mesh_Some_eq split: sum.splits)

lemma update_colors:
  assumes "update t = Inr t'"
  shows "faceColors (m1 t') = snd (build_topology (nfaces t))"
  using assms by (auto simp: update_eq split: sum.splits)

lemma update_v_colors:
  assumes "update_v v = Inr v'"
  shows "faceColors (mesh1 v') = faceColors (mesh1 v)
       \<or> faceColors (mesh1 v') = snd (build_topology (nfaces_v v))"
proof (cases "is_active (stream v)")
  case False
  then show ?thesis using assms by (simp add: update_v_inactive)
next
  case True
  show ?thesis
  proof (cases "reads (stream v) (nread (stream v))")
    case (Inl msg)
    then show ?thesis using assms True by (auto simp: update_v_read_error)
  next
    case (Inr raw)
    then show ?thesis
      using assms True
      by (auto simp: update_v_read_bytes split: sum.splits py_error.splits)
  qed
qed

lemma quad_position_bound:
  assumes "a < N - 1" "b < N - 1" "j < (2::nat)"
  shows "2 * (a * (N - 1) + b) + j < 2 * (N - 1) * (N - 1)"
proof -
  have "a * (N - 1) + b < (N - 1) * (N - 1)"
    using assms(1,2) by (rule reshape_index_bound)
  then show ?thesis using assms(3) by simp
qed

lemma build_topology_faces_nth:
  assumes "a < N - 1" "b < N - 1" "j < 2"
  shows "fst (build_topology N) ! (2 * (a * (N - 1) + b) + j) = map uint32 (quad_faces N a b ! j)"
proof -
  have idx: "2 * (a * (N - 1) + b) + j = a * (2 * (N - 1)) + (b * 2 + j)"
    by (simp add: algebra_simps)
  have "fst (topology_loop N (quad_colors N)) ! (2 * (a * (N - 1) + b) + j) = quad_faces N a b ! j"
    unfolding idx by (rule loop_faces_nth[OF assms])
  then show ?thesis
    using quad_position_bound[OF assms]
    by (simp add: build_topology_faces length_loop_faces)
qed

lemma quad_faces_nodes:
  "quad_faces N a b ! 0 = [node_index N a b, node_index N (a + 1) b, node_index N (a + 1) (b + 1)]"
  "quad_faces N a b ! 1 = [node_index N a b, node_index N a (b + 1), node_index N (a + 1) (b + 1)]"
  by (simp_all add: quad_faces_def node_index_def Let_def algebra_simps)

lemma uint32_small: "i < 2 ^ 32 \<Longrightarrow> uint32 i = i"
  by (simp add: uint32_def)

lemma node_index_bound:
  assumes "a < N" "b < N"
  shows "node_index N a b < N * N"
  unfolding node_index_def using reshape_index_bound[OF assms] by (simp add: add.commute)

lemma length_build_topology:
  "length (snd (build_topology N)) = length (fst (build_topology N))"
  by (simp add: build_topology_faces build_topology_colors topology_loop_eq length_pairs
      length_quad_faces length_quad_colors)

lemma grid_at_node:
  assumes "length xs = N" "length ys = N" "i < N" "j < N"
  shows "grid_comprehension f xs ys ! node_index N i j = f i (xs ! i) j (ys ! j)"
proof -
  have "node_index N i j = i * length ys + j"
    by (simp add: node_index_def assms(2))
  then show ?thesis using grid_nth[of i xs j ys f] assms by simp
qed

lemma update_faces:
  assumes "update t = Inr t'"
  shows "faces (m1 t') = fst (build_topology (nfaces t))"
  using assms by (auto simp: update_eq split: sum.splits)

lemma mesh_faces:
  assumes "mesh v off height wf_data = Inr (verts, fs, cs)"
  shows "fs = fst (build_topology (nfaces_v v))"
  using assms by (cases wf_data) (auto simp: mesh_None_eq mesh_Some_eq split: sum.splits)

lemma update_v_mesh:
  assumes "update_v v = Inr v'"
  shows "mesh1 v' = mesh1 v
       \<or> (faces (mesh1 v') = fst (build_topology (nfaces_v v))
          \<and> faceColors (mesh1 v') = snd (build_topology (nfaces_v v)))"
proof (cases "is_active (stream v)")
  case False
  then show ?thesis using assms by (simp add: update_v_inactive)
next
  case True
  show ?thesis
  proof (cases "reads (stream v) (nread (stream v))")
    case (Inl msg)
    then show ?thesis using assms True by (auto simp: update_v_read_error)
  next
    case (Inr raw)
    then show ?thesis
      using assms True
      by (auto simp: update_v_read_bytes split: sum.splits py_error.splits)
  qed
qed

lemma update_rotates_rows:
  assumes "update t = Inr t'" "k < length (update_verts t)"
  shows "vertexes (m1 t') ! k
           = apply_matrix (rotation_matrix_3d (theta_x t') (theta_y t') (theta_z t'))
               (update_verts t ! k)"
proof -
  let ?a = "theta_x t - pi / 60" and ?b = "theta_y t + pi / 40" and ?c = "theta_z t - pi / 30"
  obtain rv where rv: "rotate_vertices (update_verts t) ?a ?b ?c = Inr rv"
    and t': "t' = t\<lparr>theta_x := ?a, theta_y := ?b, theta_z := ?c,
                 m1 := \<lparr>vertexes = rv, faces = fst (build_topology (nfaces t)),
                        faceColors = snd (build_topology (nfaces t))\<rparr>,
                 offset := offset t - 0.18\<rparr>"
    using assms(1) by (auto simp: update_eq split: sum.splits)
  have k3: "is_Kx3 (update_verts t)"
    using rv by (auto simp: rotate_vertices_def split: if_splits)
  then have rows: "\<forall>v \<in> set (update_verts t). length v = 3"
    by (simp add: is_Kx3_def list_all_iff)
  have "rv = map (apply_matrix (rotation_matrix_3d ?a ?b ?c)) (update_verts t)"
    using rv k3 dot_transpose[OF rows] by (simp add: rotate_vertices_def)
  then show ?thesis using assms(2) by (simp add: t')
qed

text \<open>
  \<^bold>\<open>C7\<close> (as amended). Name a lattice quad by its corner node \<open>(n, m)\<close>, \<open>n\<close> counting
  along \<^verbatim>\<open>xpoints\<close> and \<open>m\<close> along \<^verbatim>\<open>ypoints\<close> as in the vertex comprehension, where
  node \<open>(n, m)\<close> is vertex \<open>m + n * N\<close>. In every frame built by a tick (the plain-mode
  \<^verbatim>\<open>update\<close>, the audio-mode \<^verbatim>\<open>mesh\<close> and so \<^verbatim>\<open>update\<close>) and by the audio-mode
  constructor, the faces at positions \<open>2 * (n * (N - 1) + m)\<close> and the next are the two
  triangles of quad \<open>(n, m)\<close>: the nodes \<open>(n, m)\<close>, \<open>(n+1, m)\<close>, \<open>(n+1, m+1)\<close> and the nodes
  \<open>(n, m)\<close>, \<open>(n, m+1)\<close>, \<open>(n+1, m+1)\<close>. Their colors, at the same positions of the color
  array, are \<open>(m/N, 1 - m/N, n/N)\<close> with alpha \<open>0.7\<close> and \<open>0.8\<close>: the specification's law
  with \<open>n\<close> and \<open>m\<close> exchanged, because the face loop runs its variable \<open>m\<close> along
  \<^verbatim>\<open>xpoints\<close> and its variable \<open>n\<close> along \<^verbatim>\<open>ypoints\<close>. The vertex a face index points to
  is the lattice node of that index, in the plain mode after the rotation, which acts row
  by row. The frame published by the plain-mode constructor has the color \<open>(0, 0, 0, 0)\<close>
  on every triangle.
\<close>

theorem quad_colors_follow_exchanged_gradient:
  assumes "n < N - 1" "m < N - 1"
  shows "fst (build_topology N) ! (2 * (n * (N - 1) + m))
           = map uint32 [node_index N n m, node_index N (n + 1) m, node_index N (n + 1) (m + 1)]
       \<and> fst (build_topology N) ! (2 * (n * (N - 1) + m) + 1)
           = map uint32 [node_index N n m, node_index N n (m + 1), node_index N (n + 1) (m + 1)]
       \<and> (N * N \<le> 2 ^ 32 \<longrightarrow>
            fst (build_topology N) ! (2 * (n * (N - 1) + m))
              = [node_index N n m, node_index N (n + 1) m, node_index N (n + 1) (m + 1)]
          \<and> fst (build_topology N) ! (2 * (n * (N - 1) + m) + 1)
              = [node_index N n m, node_index N n (m + 1), node_index N (n + 1) (m + 1)])
       \<and> snd (build_topology N) ! (2 * (n * (N - 1) + m)) = spec_color N m n 0.7
       \<and> snd (build_topology N) ! (2 * (n * (N - 1) + m) + 1) = spec_color N m n 0.8
       \<and> length (snd (build_topology N)) = length (fst (build_topology N))
       \<and> (length xs = N \<and> length ys = N \<longrightarrow>
            (\<forall>i < N. \<forall>j < N.
               grid_comprehension f xs ys ! node_index N i j = f i (xs ! i) j (ys ! j)))
       \<and> (\<forall>t'. update t = Inr t' \<longrightarrow>
             faces (m1 t') = fst (build_topology (nfaces t))
           \<and> faceColors (m1 t') = snd (build_topology (nfaces t))
           \<and> (\<forall>k < length (update_verts t).
                 vertexes (m1 t') ! k
                   = apply_matrix (rotation_matrix_3d (theta_x t') (theta_y t') (theta_z t'))
                       (update_verts t ! k)))
       \<and> (\<forall>verts fs cs. mesh v off height wf_data = Inr (verts, fs, cs) \<longrightarrow>
             fs = fst (build_topology (nfaces_v v)) \<and> cs = snd (build_topology (nfaces_v v)))
       \<and> (\<forall>v'. update_v v = Inr v' \<longrightarrow>
             mesh1 v' = mesh1 v
           \<or> (faces (mesh1 v') = fst (build_topology (nfaces_v v))
              \<and> faceColors (mesh1 v') = snd (build_topology (nfaces_v v))))
       \<and> faces (mesh1 (started simplex s)) = fst (build_topology 32)
       \<and> faceColors (mesh1 (started simplex s)) = snd (build_topology 32)
       \<and> (\<forall>c \<in> set (faceColors (m1 (started_plain simplex))). c = [0, 0, 0, 0])"
proof -
  have f0: "fst (build_topology N) ! (2 * (n * (N - 1) + m))
           = map uint32 [node_index N n m, node_index N (n + 1) m, node_index N (n + 1) (m + 1)]"
    using build_topology_faces_nth[OF assms, of 0] by (simp add: quad_faces_nodes)
  have f1: "fst (build_topology N) ! (2 * (n * (N - 1) + m) + 1)
           = map uint32 [node_index N n m, node_index N n (m + 1), node_index N (n + 1) (m + 1)]"
    using build_topology_faces_nth[OF assms, of 1] by (simp only: quad_faces_nodes)
  have exact: "fst (build_topology N) ! (2 * (n * (N - 1) + m))
              = [node_index N n m, node_index N (n + 1) m, node_index N (n + 1) (m + 1)]
          \<and> fst (build_topology N) ! (2 * (n * (N - 1) + m) + 1)
              = [node_index N n m, node_index N n (m + 1), node_index N (n + 1) (m + 1)]"
    if small: "N * N \<le> 2 ^ 32"
  proof -
    have lt: "n < N" "n + 1 < N" "m < N" "m + 1 < N" using assms by simp_all
    have "node_index N a b < 2 ^ 32" if "a < N" "b < N" for a b
      using node_index_bound[OF that] small by simp
    then have "uint32 (node_index N a b) = node_index N a b" if "a < N" "b < N" for a b
      using that by (intro uint32_small) blast
    then show ?thesis unfolding f0 f1 using lt by simp
  qed
  have c0: "snd (build_topology N) ! (2 * (n * (N - 1) + m)) = spec_color N m n 0.7"
    using build_topology_colors_nth[OF assms, of 0]
    by (simp add: quad_colors_def spec_color_def)
  have c1: "snd (build_topology N) ! (2 * (n * (N - 1) + m) + 1) = spec_color N m n 0.8"
    using build_topology_colors_nth[OF assms, of 1]
    by (simp add: quad_colors_def spec_color_def)
  have len: "length (snd (build_topology N)) = length (fst (build_topology N))"
    by (rule length_build_topology)
  have nodes: "length xs = N \<and> length ys = N \<longrightarrow>
            (\<forall>i < N. \<forall>j < N.
               grid_comprehension f xs ys ! node_index N i j = f i (xs ! i) j (ys ! j))"
    using grid_at_node by blast
  have tick: "\<forall>t'. update t = Inr t' \<longrightarrow>
             faces (m1 t') = fst (build_topology (nfaces t))
           \<and> faceColors (m1 t') = snd (build_topology (nfaces t))
           \<and> (\<forall>k < length (update_verts t).
                 vertexes (m1 t') ! k
                   = apply_matrix (rotation_matrix_3d (theta_x t') (theta_y t') (theta_z t'))
                       (update_verts t ! k))"
    using update_faces update_colors update_rotates_rows by blast
  have sampler: "\<forall>verts fs cs. mesh v off height wf_data = Inr (verts, fs, cs) \<longrightarrow>
             fs = fst (build_topology (nfaces_v v)) \<and> cs = snd (build_topology (nfaces_v v))"
    using mesh_faces mesh_colors by blast
  have tick_v: "\<forall>v'. update_v v = Inr v' \<longrightarrow>
             mesh1 v' = mesh1 v
           \<or> (faces (mesh1 v') = fst (build_topology (nfaces_v v))
              \<and> faceColors (mesh1 v') = snd (build_topology (nfaces_v v)))"
    using update_v_mesh by blast
  have ctor: "faces (mesh1 (started simplex s)) = fst (build_topology 32)"
    "faceColors (mesh1 (started simplex s)) = snd (build_topology 32)"
    using visualizer_init_started[of simplex s] by simp_all
  have frame0: "\<forall>c \<in> set (faceColors (m1 (started_plain simplex))). c = [0, 0, 0, 0]"
    using init_colors_all_zero[of _ 42] by (simp add: started_plain_eq)
  from f0 f1 exact c0 c1 len nodes tick sampler tick_v ctor frame0 show ?thesis
    by (intro conjI impI) blast+
qed

lemma length_init_frame_colors:
  "length (faceColors (m1 (started_plain simplex))) = 3362"
  by (simp add: started_plain_eq topology_loop_eq length_pairs length_init_colors)

lemma first_tick_frame:
  "\<exists>t'. update (started_plain demo_noise) = Inr t'
        \<and> faces (m1 t') = fst (build_topology 42)
        \<and> faceColors (m1 t') = snd (build_topology 42)"
proof -
  have ne: "xpoints (started_plain demo_noise) \<noteq> []" "ypoints (started_plain demo_noise) \<noteq> []"
    by (simp_all add: started_plain_eq plain_lattice_nonempty)
  show ?thesis
    by (simp add: update_succeeds[OF ne]) (simp add: started_plain_eq)
qed

theorem quad_colors_follow_exchanged_gradient_witness:
  "(5::nat) < 42 - 1 \<and> (0::nat) < 42 - 1 \<and> (42::nat) * 42 \<le> 2 ^ 32
   \<and> fst (build_topology 42) ! 410 = [210, 252, 253]
   \<and> fst (build_topology 42) ! 411 = [210, 211, 253]
   \<and> snd (build_topology 42) ! 410 = [0, 1, 5 / 42, 0.7]
   \<and> snd (build_topology 42) ! 411 = [0, 1, 5 / 42, 0.8]
   \<and> take 2 (update_verts (started_plain demo_noise) ! 210) = [- 15, - 20]
   \<and> (\<exists>t'. update (started_plain demo_noise) = Inr t'
         \<and> faces (m1 t') ! 410 = [210, 252, 253]
         \<and> faceColors (m1 t') ! 410 = [0, 1, 5 / 42, 0.7])
   \<and> faceColors (m1 (started_plain demo_noise)) ! 410 = [0, 0, 0, 0]"
proof -
  let ?t = "started_plain demo_noise"
  have hyp: "(5::nat) < 42 - 1" "(0::nat) < 42 - 1" by simp_all
  have small: "(42::nat) * 42 \<le> 2 ^ 32" by simp
  note inst = quad_colors_follow_exchanged_gradient[OF hyp,
      where xs = "xpoints ?t" and ys = "ypoints ?t"
        and f = "\<lambda>n x m y. [real_of_int x, real_of_int y,
                   2.5 * tmp ?t (real n / 5 + offset ?t) (real m / 5 + offset ?t)]"
        and t = ?t and v = "started demo_noise idle_stream" and off = 0 and height = "3.5"
        and wf_data = None and simplex = demo_noise and s = idle_stream]
  have faces_exact: "fst (build_topology 42) ! 410 = [210, 252, 253]
      \<and> fst (build_topology 42) ! 411 = [210, 211, 253]"
    using inst[THEN conjunct2, THEN conjunct2, THEN conjunct1] small
    by (simp add: node_index_def)
  have c0: "snd (build_topology 42) ! 410 = [0, 1, 5 / 42, 0.7]"
    using inst[THEN conjunct2, THEN conjunct2, THEN conjunct2, THEN conjunct1]
    by (simp add: spec_color_def)
  have c1: "snd (build_topology 42) ! 411 = [0, 1, 5 / 42, 0.8]"
    using inst[THEN conjunct2, THEN conjunct2, THEN conjunct2, THEN conjunct2, THEN conjunct1]
    by (simp add: spec_color_def)
  have lens: "length (xpoints ?t) = 42 \<and> length (ypoints ?t) = 42"
    by (simp add: started_plain_eq length_plain_lattice)
  have "update_verts ?t ! node_index 42 5 0
      = [real_of_int (xpoints ?t ! 5), real_of_int (ypoints ?t ! 0),
         2.5 * tmp ?t (real 5 / 5 + offset ?t) (real 0 / 5 + offset ?t)]"
    using inst[THEN conjunct2, THEN conjunct2, THEN conjunct2, THEN conjunct2, THEN conjunct2,
        THEN conjunct2, THEN conjunct1] lens
    unfolding update_verts_def by simp
  then have node: "take 2 (update_verts ?t ! 210) = [- 15, - 20]"
    by (simp add: node_index_def started_plain_eq plain_lattice_nth)
  obtain t' where t': "update ?t = Inr t'" "faces (m1 t') = fst (build_topology 42)"
    "faceColors (m1 t') = snd (build_topology 42)"
    using first_tick_frame by blast
  have tick: "\<exists>t'. update ?t = Inr t'
         \<and> faces (m1 t') ! 410 = [210, 252, 253]
         \<and> faceColors (m1 t') ! 410 = [0, 1, 5 / 42, 0.7]"
    using t' faces_exact c0 by auto
  have "faceColors (m1 ?t) ! 410 \<in> set (faceColors (m1 ?t))"
    by (rule nth_mem) (simp add: length_init_frame_colors)
  then have zero: "faceColors (m1 ?t) ! 410 = [0, 0, 0, 0]"
    using inst by blast
  show ?thesis using hyp small faces_exact c0 c1 node tick zero by blast
qed

theorem spec_gradient_law_counterexample:
  "terrain_init demo_noise = Inr (started_plain demo_noise)
   \<and> update (started_plain demo_noise) = Inr (projr (update (started_plain demo_noise)))
   \<and> take 2 (update_verts (started_plain demo_noise) ! 210) = [- 15, - 20]
   \<and> xpoints (started_plain demo_noise) ! 5 = - 15
   \<and> ypoints (started_plain demo_noise) ! 0 = - 20
   \<and> faces (m1 (projr (update (started_plain demo_noise)))) ! 410 = [210, 252, 253]
   \<and> faceColors (m1 (projr (update (started_plain demo_noise)))) ! 410 = [0, 1, 5 / 42, 0.7]
   \<and> spec_color 42 5 0 0.7 = [5 / 42, 37 / 42, 0, 0.7]
   \<and> faceColors (m1 (projr (update (started_plain demo_noise)))) ! 410 \<noteq> spec_color 42 5 0 0.7
   \<and> faceColors (m1 (started_plain demo_noise)) ! 410 = [0, 0, 0, 0]
   \<and> faceColors (m1 (started_plain demo_noise)) ! 410 \<noteq> spec_color 42 5 0 0.7"
proof -
  let ?t = "started_plain demo_noise"
  obtain t' where t': "update ?t = Inr t'" "faces (m1 t') = fst (build_topology 42)"
    "faceColors (m1 t') = snd (build_topology 42)"
    using first_tick_frame by blast
  have proj: "projr (update ?t) = t'" by (simp add: t'(1))
  have pos: "(2::nat) * (5 * (42 - 1) + 0) = 410" by simp
  have q: "(5::nat) < 42 - 1" "(0::nat) < 42 - 1" "(0::nat) < 2" by simp_all
  have face: "faces (m1 t') ! 410 = [210, 252, 253]"
    using build_topology_faces_nth[OF q]
    by (simp add: t'(2) quad_faces_def uint32_def)
  have col: "faceColors (m1 t') ! 410 = [0, 1, 5 / 42, 0.7]"
    using build_topology_colors_nth[OF q]
    by (simp add: t'(3) quad_colors_def)
  have node: "update_verts ?t ! (5 * length (ypoints ?t) + 0)
      = [real_of_int (xpoints ?t ! 5), real_of_int (ypoints ?t ! 0),
         2.5 * tmp ?t (real 5 / 5 + offset ?t) (real 0 / 5 + offset ?t)]"
    by (rule update_verts_nth) (simp_all add: started_plain_eq length_plain_lattice)
  have coords: "xpoints ?t ! 5 = - 15" "ypoints ?t ! 0 = - 20"
    by (simp_all add: started_plain_eq plain_lattice_nth)
  have node210: "take 2 (update_verts ?t ! 210) = [- 15, - 20]"
    using node coords by (simp add: started_plain_eq length_plain_lattice)
  have law: "spec_color 42 5 0 0.7 = [5 / 42, 37 / 42, 0, 0.7]"
    by (simp add: spec_color_def)
  have "faceColors (m1 ?t) ! 410 \<in> set (faceColors (m1 ?t))"
    by (rule nth_mem) (simp add: length_init_frame_colors)
  then have zero: "faceColors (m1 ?t) ! 410 = [0, 0, 0, 0]"
    using init_colors_all_zero[of _ 42] by (simp add: started_plain_eq)
  show ?thesis
    unfolding proj law zero col face
    using terrain_init_started t'(1) node210 coords by simp
qed

end
